theory Spec2Isabelle
  imports Complex_Main "HOL-Library.AList" "HOL-Library.Char_ord" "HOL-Library.List_Lexorder"
begin

section \<open>Python primitives used by the assessment code\<close>

text \<open>
  Python floats are modelled as exact rationals: the literals \<open>0.70\<close>, \<open>0.30\<close>, \<open>0.20\<close>
  are the fractions they denote and \<open>/\<close> is exact division. Python's \<open>round(x, n)\<close> rounds
  the exact value of \<open>x\<close> to \<open>n\<close> decimals, ties going to the even neighbour.
\<close>

definition round_half_even :: "rat \<Rightarrow> int" where
  "round_half_even x =
     (let f = \<lfloor>x\<rfloor>; d = x - of_int f
      in if d < 1 / 2 then f
         else if 1 / 2 < d then f + 1
         else if even f then f else f + 1)"

definition py_round :: "rat \<Rightarrow> nat \<Rightarrow> rat" where
  "py_round x n = of_int (round_half_even (x * 10 ^ n)) / 10 ^ n"


datatype py_error =
  ZeroDivisionError
  | ValueError string
  | KeyError string
  | OSError string
  | Exception string

text \<open>\<open>str(e)\<close>: the message an exception carries. A \<open>KeyError\<close> raised by the questions
  store carries the identifier that was not found (the listing of the available
  identifiers in its message is not modelled).\<close>

fun error_message :: "py_error \<Rightarrow> string" where
  "error_message ZeroDivisionError = ''division by zero''"
| "error_message (ValueError m) = m"
| "error_message (KeyError m) = m"
| "error_message (OSError m) = m"
| "error_message (Exception m) = m"

subsection \<open>Integers, ranges and slices\<close>

definition py_floordiv :: "int \<Rightarrow> int \<Rightarrow> py_error + int" where
  "py_floordiv a b = (if b = 0 then Inl ZeroDivisionError else Inr (a div b))"

function range_up :: "int \<Rightarrow> int \<Rightarrow> int \<Rightarrow> int list" where
  "range_up i stop step = (if 0 < step \<and> i < stop then i # range_up (i + step) stop step else [])"
  by pat_completeness auto
termination
  by (relation "measure (\<lambda>(i, stop, step). nat (stop - i))") auto

function range_down :: "int \<Rightarrow> int \<Rightarrow> int \<Rightarrow> int list" where
  "range_down i stop step =
     (if step < 0 \<and> stop < i then i # range_down (i + step) stop step else [])"
  by pat_completeness auto
termination
  by (relation "measure (\<lambda>(i, stop, step). nat (i - stop))") auto

declare range_up.simps [simp del] range_down.simps [simp del]

text \<open>\<open>range(start, stop, step)\<close>: a zero step raises \<open>ValueError\<close>.\<close>

definition py_range :: "int \<Rightarrow> int \<Rightarrow> int \<Rightarrow> py_error + int list" where
  "py_range start stop step =
     (if step = 0 then Inl (ValueError ''range() arg 3 must not be zero'')
      else if 0 < step then Inr (range_up start stop step)
      else Inr (range_down start stop step))"

text \<open>\<open>xs[lo:hi]\<close>: negative bounds count from the end, all bounds are clipped.\<close>

definition slice_index :: "nat \<Rightarrow> int \<Rightarrow> nat" where
  "slice_index n i = (if i < 0 then nat (max 0 (int n + i)) else min (nat i) n)"

definition py_slice :: "'a list \<Rightarrow> int \<Rightarrow> int \<Rightarrow> 'a list" where
  "py_slice xs lo hi =
     (let l = slice_index (length xs) lo; h = slice_index (length xs) hi
      in take (h - l) (drop l xs))"

subsection \<open>Strings\<close>

text \<open>
  A \<open>str\<close> is a \<open>string\<close>; each \<open>char\<close> stands for one code point below 256, so
  \<open>length\<close> is Python's \<open>len\<close>. \<open>is_space\<close> is the whitespace that \<open>str.strip()\<close> and
  \<open>int()\<close> remove in that range, \<open>lower\<close> is \<open>str.lower()\<close> there.
\<close>

definition is_space :: "char \<Rightarrow> bool" where
  "is_space c =
     (let n = (of_char c :: nat)
      in (9 \<le> n \<and> n \<le> 13) \<or> (28 \<le> n \<and> n \<le> 32) \<or> n = 133 \<or> n = 160)"

definition lstrip :: "string \<Rightarrow> string" where
  "lstrip s = dropWhile is_space s"

definition rstrip :: "string \<Rightarrow> string" where
  "rstrip s = rev (dropWhile is_space (rev s))"

definition strip :: "string \<Rightarrow> string" where
  "strip s = rstrip (lstrip s)"

text \<open>\<open>s.rstrip(chars)\<close>\<close>

definition rstrip_chars :: "string \<Rightarrow> string \<Rightarrow> string" where
  "rstrip_chars chars s = rev (dropWhile (\<lambda>c. c \<in> set chars) (rev s))"

definition lower_char :: "char \<Rightarrow> char" where
  "lower_char c =
     (let n = (of_char c :: nat)
      in if (65 \<le> n \<and> n \<le> 90) \<or> (192 \<le> n \<and> n \<le> 222 \<and> n \<noteq> 215)
         then char_of (n + 32) else c)"

definition lower :: "string \<Rightarrow> string" where
  "lower s = map lower_char s"

definition startswith :: "string \<Rightarrow> string \<Rightarrow> bool" where
  "startswith s p = (take (length p) s = p)"

text \<open>\<open>s.replace(old, new)\<close> for a non-empty \<open>old\<close>: occurrences are replaced from the
  left, without overlap.\<close>

function replace_nonempty :: "string \<Rightarrow> string \<Rightarrow> string \<Rightarrow> string" where
  "replace_nonempty old new s =
     (if old = [] \<or> s = [] then s
      else if take (length old) s = old
        then new @ replace_nonempty old new (drop (length old) s)
      else hd s # replace_nonempty old new (tl s))"
  by pat_completeness auto
termination
  by (relation "measure (\<lambda>(old, new, s). length s)") auto

declare replace_nonempty.simps [simp del]

definition replace :: "string \<Rightarrow> string \<Rightarrow> string \<Rightarrow> string" where
  "replace old new s =
     (if old = [] then new @ concat (map (\<lambda>c. c # new) s) else replace_nonempty old new s)"

text \<open>\<open>int(s)\<close> on a string: surrounding whitespace is dropped, one sign is allowed,
  the digits may be separated by single underscores. \<open>None\<close> is the \<open>ValueError\<close>.\<close>

definition is_digit :: "char \<Rightarrow> bool" where
  "is_digit c = (let n = (of_char c :: nat) in 48 \<le> n \<and> n \<le> 57)"

definition digit_value :: "char \<Rightarrow> nat" where
  "digit_value c = of_char c - 48"

fun parse_digits :: "nat \<Rightarrow> bool \<Rightarrow> string \<Rightarrow> nat option" where
  "parse_digits acc need_digit [] = (if need_digit then None else Some acc)"
| "parse_digits acc need_digit (c # cs) =
     (if is_digit c then parse_digits (10 * acc + digit_value c) False cs
      else if c = CHR ''_'' \<and> \<not> need_digit then parse_digits acc True cs
      else None)"

definition py_int :: "string \<Rightarrow> int option" where
  "py_int s =
     (case strip s of
        [] \<Rightarrow> None
      | c # r \<Rightarrow>
          if c = CHR ''-'' then map_option (\<lambda>n. - int n) (parse_digits 0 True r)
          else if c = CHR ''+'' then map_option int (parse_digits 0 True r)
          else map_option int (parse_digits 0 True (c # r)))"

text \<open>\<open>max(xs)\<close> and \<open>min(xs)\<close> of a non-empty list, \<open>sum(xs) / len(xs)\<close>.\<close>

definition py_max :: "rat list \<Rightarrow> rat" where
  "py_max xs = fold max (tl xs) (hd xs)"

definition py_min :: "rat list \<Rightarrow> rat" where
  "py_min xs = fold min (tl xs) (hd xs)"

definition average :: "rat list \<Rightarrow> rat" where
  "average xs = sum_list xs / of_nat (length xs)"

section \<open>exam/assess: features and verdicts\<close>

datatype FeatureType = CORE | DETAILS_IMPORTANT

record Feature =
  type :: FeatureType
  description :: string

record FeatureAssessment =
  satisfied :: bool
  motivation :: string

definition is_core :: "Feature \<Rightarrow> bool" where
  "is_core f = (type f = CORE)"

text \<open>\<open>Feature.weight_percentage\<close>: the third branch of the source is kept although
  \<open>FeatureType\<close> has only two members.\<close>

definition weight_percentage :: "Feature \<Rightarrow> rat" where
  "weight_percentage f =
     (if type f = CORE then 70 / 100
      else if type f = DETAILS_IMPORTANT then 20 / 100
      else 10 / 100)"

section \<open>exam/assess: \<open>Assessor.calculate_score\<close>\<close>

text \<open>
  The verdict dictionary \<open>dict[Feature, FeatureAssessment]\<close> is an association list in
  insertion order. The statistics dictionary is a record; the empty dictionary \<open>{}\<close>
  returned in the terminal case is \<open>EmptyStats\<close>. The breakdown is either the literal text of
  the terminal case or the values the f-strings interpolate (the rendering of floats as
  text is not modelled).
\<close>

record group_stats =
  gs_total :: nat
  gs_satisfied :: nat
  gs_percentage :: rat
  gs_weight :: rat

record score_stats =
  st_core :: group_stats
  st_details_important :: group_stats
  st_scoring_system :: string

record breakdown_part =
  bp_label :: string
  bp_satisfied :: nat
  bp_total :: nat
  bp_raw_pct :: rat
  bp_weighted_pct :: rat

datatype breakdown =
  BreakdownText string
  | BreakdownParts "breakdown_part list" rat rat rat string

datatype stats = EmptyStats | Stats score_stats

definition core_total_of :: "(Feature \<times> FeatureAssessment) list \<Rightarrow> nat" where
  "core_total_of assessments = length (filter (\<lambda>(f, a). type f = CORE) assessments)"

definition core_satisfied_of :: "(Feature \<times> FeatureAssessment) list \<Rightarrow> nat" where
  "core_satisfied_of assessments =
     length (filter (\<lambda>(f, a). type f = CORE \<and> satisfied a) assessments)"

definition important_total_of :: "(Feature \<times> FeatureAssessment) list \<Rightarrow> nat" where
  "important_total_of assessments =
     length (filter (\<lambda>(f, a). type f = DETAILS_IMPORTANT) assessments)"

definition important_satisfied_of :: "(Feature \<times> FeatureAssessment) list \<Rightarrow> nat" where
  "important_satisfied_of assessments =
     length (filter (\<lambda>(f, a). type f = DETAILS_IMPORTANT \<and> satisfied a) assessments)"

definition calculate_score ::
  "(Feature \<times> FeatureAssessment) list \<Rightarrow> rat \<Rightarrow> rat \<times> breakdown \<times> stats" where
  "calculate_score assessments max_score =
     (if assessments = [] then (0, BreakdownText ''No features assessed'', EmptyStats)
      else
        let core_total = core_total_of assessments;
            core_satisfied = core_satisfied_of assessments;
            important_total = important_total_of assessments;
            important_satisfied = important_satisfied_of assessments;
            weights =
              (if core_total > 0 \<and> important_total > 0
                 then Some (70 / 100, 30 / 100, ''70% Core + 30% Important'')
               else if core_total > 0
                 then Some (1, 0, ''100% Core (no Important details)'')
               else if important_total > 0
                 then Some (0, 1, ''100% Important (no Core - unusual)'')
               else None)
        in case weights of
             None \<Rightarrow> (0, BreakdownText ''No features assessed'', EmptyStats)
           | Some (core_weight, important_weight, scoring_system) \<Rightarrow>
               let core_percentage =
                     (if core_total > 0
                        then of_nat core_satisfied / of_nat core_total * core_weight else 0);
                   important_percentage =
                     (if important_total > 0
                        then of_nat important_satisfied / of_nat important_total * important_weight
                      else 0);
                   final_percentage = core_percentage + important_percentage;
                   score = py_round (final_percentage * max_score) 2;
                   breakdown_parts =
                     (if core_total > 0
                        then [\<lparr>bp_label = ''Core'', bp_satisfied = core_satisfied,
                               bp_total = core_total,
                               bp_raw_pct = of_nat core_satisfied / of_nat core_total * 100,
                               bp_weighted_pct = core_percentage * 100\<rparr>]
                      else [])
                     @ (if important_total > 0
                          then [\<lparr>bp_label = ''Important'', bp_satisfied = important_satisfied,
                                 bp_total = important_total,
                                 bp_raw_pct =
                                   of_nat important_satisfied / of_nat important_total * 100,
                                 bp_weighted_pct = important_percentage * 100\<rparr>]
                        else []);
                   stats =
                     \<lparr>st_core =
                        \<lparr>gs_total = core_total, gs_satisfied = core_satisfied,
                         gs_percentage =
                           py_round (if core_total > 0
                                       then of_nat core_satisfied / of_nat core_total * 100
                                     else 0) 1,
                         gs_weight = core_weight\<rparr>,
                      st_details_important =
                        \<lparr>gs_total = important_total, gs_satisfied = important_satisfied,
                         gs_percentage =
                           py_round (if important_total > 0
                                       then of_nat important_satisfied / of_nat important_total * 100
                                     else 0) 1,
                         gs_weight = important_weight\<rparr>,
                      st_scoring_system = scoring_system\<rparr>
               in (score,
                   BreakdownParts breakdown_parts (final_percentage * 100) max_score score
                     scoring_system,
                   Stats stats))"

section \<open>exam, exam/solution: questions, checklists, the questions store\<close>

text \<open>\<open>exam.Question\<close> (the fields the assessment reads) and \<open>exam.solution.Answer\<close>,
  the checklist of one question.\<close>

record Question =
  q_id :: string
  q_text :: string

record Answer =
  core :: "string list"
  details_important :: "string list"

text \<open>\<open>QuestionsStore.question\<close> over the dictionary \<open>__questions_by_id\<close>, in insertion
  order: exact identifier, then case-insensitive, then ignoring spaces and dashes,
  else \<open>KeyError\<close>.\<close>

definition normalize_id :: "string \<Rightarrow> string" where
  "normalize_id qid = lower (replace ''-'' [] (replace '' '' [] qid))"

definition store_question :: "(string \<times> Question) list \<Rightarrow> string \<Rightarrow> py_error + Question" where
  "store_question questions_by_id qid =
     (case map_of questions_by_id qid of
        Some q \<Rightarrow> Inr q
      | None \<Rightarrow>
          (case find (\<lambda>(k, q). lower k = lower qid) questions_by_id of
             Some (k, q) \<Rightarrow> Inr q
           | None \<Rightarrow>
               (case find (\<lambda>(k, q). normalize_id k = normalize_id qid) questions_by_id of
                  Some (k, q) \<Rightarrow> Inr q
                | None \<Rightarrow> Inl (KeyError qid))))"

section \<open>exam/assess: the data of one assessment\<close>

text \<open>The keyword arguments of \<open>TEMPLATE.format\<close>: the prompt sent to the model, up to the
  text of the template file.\<close>

record llm_prompt =
  p_question :: string
  p_feature_type :: string
  p_feature_verb_ideal :: string
  p_feature_verb_actual :: string
  p_feature :: string
  p_answer :: string

record feature_entry =
  fe_feature :: string
  fe_feature_type :: string
  fe_satisfied :: bool
  fe_motivation :: string

text \<open>The dictionary returned by \<open>assess_single_answer\<close>; a key that a status does not
  set is \<open>None\<close>. \<open>assess_student_exam\<close> adds the question's metadata with \<open>update\<close>.\<close>

record single_assessment =
  a_status :: string
  a_score :: rat
  a_max_score :: rat
  a_statistics :: "stats option"
  a_breakdown :: "breakdown option"
  a_feature_assessments :: "feature_entry list option"
  a_error :: "string option"

record assessment = single_assessment +
  a_question_number :: int
  a_question_id :: string
  a_question_text :: "string option"
  a_student_response :: "string option"

text \<open>One entry of \<open>exam_questions\<close>, as \<open>load_exam_from_yaml\<close> builds it: \<open>number\<close> is the
  key \<open>Question N\<close> of the YAML file, \<open>text\<close> may be missing.\<close>

record question_info =
  qi_number :: string
  qi_id :: string
  qi_text :: "string option"
  qi_score :: rat

record original_grades =
  total_grade :: rat
  question_grades :: "int \<rightharpoonup> rat"

record exam_result =
  r_student_email :: string
  r_calculated_score :: rat
  r_max_score :: rat
  r_percentage :: rat
  r_scoring_system :: string
  r_assessments :: "assessment list"
  r_original_grades :: "original_grades option"
  r_saved_files :: "(string \<times> string) option"
  r_moodle_grade :: "rat option"

record student =
  email :: string
  responses :: "int \<rightharpoonup> string"
  moodle_grade :: "rat option"
  original_grades :: "original_grades option"

record exam_data =
  exam_id :: string
  questions :: "question_info list"
  students :: "student list"

section \<open>The state the assessment reads and writes\<close>

text \<open>
  \<open>world\<close> is everything mutable: the context of the MCP server (loaded exams in
  insertion order, cached checklists), the checklist files under \<open>solutions/\<close> by question
  identifier (\<open>Some None\<close> is a file that does not parse), the prompts sent to the model so
  far, and the results written under \<open>evaluations/\<close> by student.
  \<open>env\<close> is what the code is given: the model behind \<open>llm.invoke\<close> (its answer may depend
  on the earlier calls; \<open>Inl\<close> is an exception), the questions store, and whether the
  directory of a student can be written.
\<close>

record world =
  loaded_exams :: "(string \<times> exam_data) list"
  loaded_checklists :: "string \<rightharpoonup> Answer"
  solutions :: "string \<rightharpoonup> Answer option"
  llm_calls :: "llm_prompt list"
  evaluations :: "string \<rightharpoonup> exam_result"

record env =
  llm_invoke :: "llm_prompt list \<Rightarrow> llm_prompt \<Rightarrow> py_error + FeatureAssessment"
  questions_store :: "(string \<times> Question) list"
  evaluations_dir :: string
  writable :: "string \<Rightarrow> bool"

section \<open>exam/assess: \<open>enumerate_features\<close> and \<open>Assessor.assess_single_answer\<close>\<close>

fun type_value :: "FeatureType \<Rightarrow> string" where
  "type_value CORE = ''core''"
| "type_value DETAILS_IMPORTANT = ''important detail''"

fun type_name :: "FeatureType \<Rightarrow> string" where
  "type_name CORE = ''CORE''"
| "type_name DETAILS_IMPORTANT = ''DETAILS_IMPORTANT''"

definition enumerate_features :: "Answer option \<Rightarrow> (nat \<times> Feature) list" where
  "enumerate_features answer =
     (case answer of
        None \<Rightarrow> []
      | Some a \<Rightarrow>
          enumerate 0
            (map (\<lambda>core_item. \<lparr>type = CORE, description = core_item\<rparr>) (core a)
             @ map (\<lambda>detail. \<lparr>type = DETAILS_IMPORTANT, description = detail\<rparr>)
                 (details_important a)))"

text \<open>The loop over the features: one call of the model per feature, in checklist order.
  The first exception ends the loop; the calls made so far stay in \<open>llm_calls\<close>.\<close>

fun judge_features ::
  "env \<Rightarrow> Question \<Rightarrow> string \<Rightarrow> (nat \<times> Feature) list \<Rightarrow>
   feature_entry list \<Rightarrow> (Feature \<times> FeatureAssessment) list \<Rightarrow> world \<Rightarrow>
   (py_error + feature_entry list \<times> (Feature \<times> FeatureAssessment) list) \<times> world" where
  "judge_features e question student_response [] feature_assessments_list
     feature_assessments_dict w = (Inr (feature_assessments_list, feature_assessments_dict), w)"
| "judge_features e question student_response ((index, feature) # rest) feature_assessments_list
     feature_assessments_dict w =
     (let prompt = \<lparr>p_question = q_text question,
                     p_feature_type = type_value (type feature),
                     p_feature_verb_ideal = ''should be present'',
                     p_feature_verb_actual = ''is actually present'',
                     p_feature = description feature,
                     p_answer = student_response\<rparr>;
          w' = w\<lparr>llm_calls := llm_calls w @ [prompt]\<rparr>
      in case llm_invoke e (llm_calls w) prompt of
           Inl exn \<Rightarrow> (Inl exn, w')
         | Inr result \<Rightarrow>
             judge_features e question student_response rest
               (feature_assessments_list
                @ [\<lparr>fe_feature = description feature,
                     fe_feature_type = type_name (type feature),
                     fe_satisfied = satisfied result,
                     fe_motivation = motivation result\<rparr>])
               (AList.update feature result feature_assessments_dict) w')"

definition assess_single_answer ::
  "env \<Rightarrow> Question \<Rightarrow> Answer option \<Rightarrow> string \<Rightarrow> rat \<Rightarrow> world \<Rightarrow> single_assessment \<times> world"
  where
  "assess_single_answer e question checklist student_response max_score w =
     (if student_response = [] \<or> strip student_response = ''-''
      then (\<lparr>a_status = ''no_response'', a_score = 0, a_max_score = max_score,
              a_statistics = None, a_breakdown = None, a_feature_assessments = None,
              a_error = None\<rparr>, w)
      else
        case judge_features e question student_response (enumerate_features checklist) [] [] w of
          (Inl exn, w') \<Rightarrow>
            (\<lparr>a_status = ''error'', a_score = 0, a_max_score = max_score,
              a_statistics = None, a_breakdown = None, a_feature_assessments = None,
              a_error = Some (error_message exn)\<rparr>, w')
        | (Inr (feature_assessments_list, feature_assessments_dict), w') \<Rightarrow>
            (case calculate_score feature_assessments_dict max_score of
               (score, breakdown, stats) \<Rightarrow>
                 (\<lparr>a_status = ''assessed'', a_score = score, a_max_score = max_score,
                   a_statistics = Some stats, a_breakdown = Some breakdown,
                   a_feature_assessments = Some feature_assessments_list,
                   a_error = None\<rparr>, w')))"

section \<open>exam/solution: \<open>load_cache\<close>\<close>

text \<open>The cached checklist of a question: no file gives \<open>None\<close>; a file that does not
  parse is deleted and gives \<open>None\<close>.\<close>

definition load_cache :: "Question \<Rightarrow> world \<Rightarrow> Answer option \<times> world" where
  "load_cache question w =
     (case solutions w (q_id question) of
        None \<Rightarrow> (None, w)
      | Some None \<Rightarrow> (None, w\<lparr>solutions := (solutions w)(q_id question := None)\<rparr>)
      | Some (Some cached_answer) \<Rightarrow> (Some cached_answer, w))"

section \<open>exam/assess: \<open>Assessor.assess_student_exam\<close>\<close>

text \<open>The checklist of a question: from the context, else from the cache file, which is
  then stored in the context.\<close>

definition resolve_checklist :: "Question \<Rightarrow> string \<Rightarrow> world \<Rightarrow> Answer option \<times> world" where
  "resolve_checklist question qid w =
     (case loaded_checklists w qid of
        Some checklist \<Rightarrow> (Some checklist, w)
      | None \<Rightarrow>
          (case load_cache question w of
             (Some checklist, w') \<Rightarrow>
               (Some checklist, w'\<lparr>loaded_checklists := (loaded_checklists w')(qid \<mapsto> checklist)\<rparr>)
           | (None, w') \<Rightarrow> (None, w')))"

text \<open>The body of the \<open>try\<close> block for one answered question; \<open>Inl\<close> is the exception
  that the \<open>except\<close> clause receives.\<close>

definition try_assess ::
  "env \<Rightarrow> question_info \<Rightarrow> int \<Rightarrow> string \<Rightarrow> world \<Rightarrow> (py_error + assessment) \<times> world" where
  "try_assess e question_info question_num response_text w =
     (case store_question (questions_store e) (qi_id question_info) of
        Inl exn \<Rightarrow> (Inl exn, w)
      | Inr question \<Rightarrow>
          (case resolve_checklist question (qi_id question_info) w of
             (None, w1) \<Rightarrow>
               (Inl (ValueError (''No checklist found for question '' @ qi_id question_info)), w1)
           | (Some checklist, w1) \<Rightarrow>
               (case assess_single_answer e question (Some checklist) response_text
                       (qi_score question_info) w1 of
                  (a, w2) \<Rightarrow>
                    (Inr (single_assessment.extend a
                            \<lparr>a_question_number = question_num,
                             a_question_id = qi_id question_info,
                             a_question_text = Some (q_text question),
                             a_student_response = Some response_text\<rparr>), w2))))"

text \<open>The loop variables of \<open>assess_student_exam\<close>.\<close>

record exam_loop =
  assessments :: "assessment list"
  total_score :: rat
  total_max_score :: rat
  loop_world :: world

definition question_number :: "question_info \<Rightarrow> int option" where
  "question_number question_info = py_int (replace ''Question '' [] (qi_number question_info))"

text \<open>One iteration of the loop. The conversion of the question number is outside the
  \<open>try\<close> block: its \<open>ValueError\<close> leaves the function.\<close>

definition assess_question ::
  "env \<Rightarrow> (int \<rightharpoonup> string) \<Rightarrow> question_info \<Rightarrow> exam_loop \<Rightarrow> py_error + exam_loop" where
  "assess_question e student_responses question_info st =
     (case question_number question_info of
        None \<Rightarrow>
          Inl (ValueError (''invalid literal for int() with base 10: '' @ [CHR 0x27]
                 @ replace ''Question '' [] (qi_number question_info) @ [CHR 0x27]))
      | Some question_num \<Rightarrow>
          (case student_responses question_num of
             None \<Rightarrow>
               Inr (st\<lparr>assessments := assessments st
                         @ [\<lparr>a_status = ''no_response'', a_score = 0,
                              a_max_score = qi_score question_info,
                              a_statistics = None, a_breakdown = None,
                              a_feature_assessments = None, a_error = None,
                              a_question_number = question_num,
                              a_question_id = qi_id question_info,
                              a_question_text = qi_text question_info,
                              a_student_response = None\<rparr>],
                       total_max_score := total_max_score st + qi_score question_info\<rparr>)
           | Some response_text \<Rightarrow>
               (case try_assess e question_info question_num response_text (loop_world st) of
                  (Inr a, w') \<Rightarrow>
                    Inr (st\<lparr>assessments := assessments st @ [a],
                            total_score := total_score st + a_score a,
                            total_max_score := total_max_score st + qi_score question_info,
                            loop_world := w'\<rparr>)
                | (Inl exn, w') \<Rightarrow>
                    Inr (st\<lparr>assessments := assessments st
                              @ [\<lparr>a_status = ''error'', a_score = 0,
                                   a_max_score = qi_score question_info,
                                   a_statistics = None, a_breakdown = None,
                                   a_feature_assessments = None,
                                   a_error = Some (error_message exn),
                                   a_question_number = question_num,
                                   a_question_id = qi_id question_info,
                                   a_question_text = qi_text question_info,
                                   a_student_response = None\<rparr>],
                            total_max_score := total_max_score st + qi_score question_info,
                            loop_world := w'\<rparr>))))"

fun assess_questions ::
  "env \<Rightarrow> (int \<rightharpoonup> string) \<Rightarrow> question_info list \<Rightarrow> exam_loop \<Rightarrow> py_error + exam_loop" where
  "assess_questions e student_responses [] st = Inr st"
| "assess_questions e student_responses (question_info # rest) st =
     (case assess_question e student_responses question_info st of
        Inl exn \<Rightarrow> Inl exn
      | Inr st' \<Rightarrow> assess_questions e student_responses rest st')"

text \<open>\<open>_save_assessment_results\<close>: the result is written under the student's directory;
  a directory that cannot be written raises. The text of the summary is not modelled.\<close>

definition save_assessment_results ::
  "env \<Rightarrow> string \<Rightarrow> exam_result \<Rightarrow> world \<Rightarrow> py_error + (string \<times> string) \<times> world" where
  "save_assessment_results e student_email result w =
     (if writable e student_email
      then Inr ((evaluations_dir e @ ''/'' @ student_email @ ''/assessment.json'',
                 evaluations_dir e @ ''/'' @ student_email @ ''/summary.txt''),
                w\<lparr>evaluations := (evaluations w)(student_email \<mapsto> result)\<rparr>)
      else Inl (OSError student_email))"

definition assess_student_exam ::
  "env \<Rightarrow> string \<Rightarrow> question_info list \<Rightarrow> (int \<rightharpoonup> string) \<Rightarrow> bool \<Rightarrow>
   original_grades option \<Rightarrow> world \<Rightarrow> (py_error + exam_result) \<times> world" where
  "assess_student_exam e student_email exam_questions student_responses save_results
     original_grades_arg w =
     (case assess_questions e student_responses exam_questions
             \<lparr>assessments = [], total_score = 0, total_max_score = 0, loop_world = w\<rparr> of
        Inl exn \<Rightarrow> (Inl exn, w)
      | Inr st \<Rightarrow>
          let result =
                \<lparr>r_student_email = student_email,
                 r_calculated_score = total_score st,
                 r_max_score = total_max_score st,
                 r_percentage =
                   py_round (if total_max_score st > 0
                               then total_score st / total_max_score st * 100 else 0) 1,
                 r_scoring_system = ''70% Core + 30% Important_Details'',
                 r_assessments = assessments st,
                 r_original_grades = original_grades_arg,
                 r_saved_files = None,
                 r_moodle_grade = None\<rparr>
          in if save_results
             then (case save_assessment_results e student_email result (loop_world st) of
                     Inl exn \<Rightarrow> (Inl exn, loop_world st)
                   | Inr (saved_files, w') \<Rightarrow> (Inr (result\<lparr>r_saved_files := Some saved_files\<rparr>), w'))
             else (Inr result, loop_world st))"

section \<open>exam/mcp: the tool \<open>assess_student_exam\<close>\<close>

text \<open>The condition of the search loop: the lower-cased email equals the lower-cased
  query, or the query has at least 10 characters and is a prefix of it.\<close>

definition student_matches :: "string \<Rightarrow> student \<Rightarrow> bool" where
  "student_matches student_email_clean student =
     (let full_email = email student
      in lower full_email = lower student_email_clean \<or>
         (length student_email_clean \<ge> 10 \<and>
          startswith (lower full_email) (lower student_email_clean)))"

text \<open>The inner loop over the students of one exam, left at the first match.\<close>

fun find_in_students :: "string \<Rightarrow> student list \<Rightarrow> student option" where
  "find_in_students student_email_clean [] = None"
| "find_in_students student_email_clean (student # rest) =
     (if student_matches student_email_clean student then Some student
      else find_in_students student_email_clean rest)"

text \<open>The outer loop over the loaded exams: the matched student, the questions of the
  student's exam and the full email.\<close>

fun find_student ::
  "string \<Rightarrow> (string \<times> exam_data) list \<Rightarrow> (student \<times> question_info list \<times> string) option" where
  "find_student student_email_clean [] = None"
| "find_student student_email_clean ((key, exam) # rest) =
     (case find_in_students student_email_clean (students exam) of
        Some student_data \<Rightarrow> Some (student_data, questions exam, email student_data)
      | None \<Rightarrow> find_student student_email_clean rest)"

text \<open>The JSON text a tool returns: an object with the key \<open>error\<close>, or the result of the
  assessment.\<close>

datatype tool_json = ErrorJson string | ResultJson exam_result

definition assess_student_exam_tool :: "env \<Rightarrow> string \<Rightarrow> world \<Rightarrow> tool_json \<times> world" where
  "assess_student_exam_tool e student_email w =
     (let student_email_clean = strip (rstrip_chars ''.'' student_email)
      in case find_student student_email_clean (loaded_exams w) of
           None \<Rightarrow>
             (ErrorJson (''Student not found: '' @ [CHR 0x27] @ student_email_clean @ [CHR 0x27]),
              w)
         | Some (student_data, exam_questions, matched_email) \<Rightarrow>
             (case assess_student_exam e matched_email exam_questions (responses student_data)
                     True (original_grades student_data) w of
                (Inl exn, w') \<Rightarrow> (ErrorJson (error_message exn), w')
              | (Inr result, w') \<Rightarrow>
                  (ResultJson (result\<lparr>r_moodle_grade := moodle_grade student_data\<rparr>), w')))"

section \<open>multiAgents-client: the batch run\<close>

subsection \<open>\<open>distribute_node\<close>\<close>

record distribute_update =
  student_batches :: "string list list"
  num_workers :: int

definition distribute_node :: "student list \<Rightarrow> int \<Rightarrow> py_error + distribute_update" where
  "distribute_node exam_students self_num_workers =
     (let students_emails = map email exam_students
      in case py_floordiv (int (length students_emails)) self_num_workers of
           Inl exn \<Rightarrow> Inl exn
         | Inr q \<Rightarrow>
             let batch_size = q + 1
             in case py_range 0 (int (length students_emails)) batch_size of
                  Inl exn \<Rightarrow> Inl exn
                | Inr idx \<Rightarrow>
                    let batches = map (\<lambda>i. py_slice students_emails i (i + batch_size)) idx
                    in Inr \<lparr>student_batches = batches, num_workers = int (length batches)\<rparr>)"

subsection \<open>\<open>create_worker_sends\<close> and \<open>worker_node\<close>\<close>

record worker_state =
  worker_id :: int
  batch :: "string list"

record worker_result =
  w_worker_id :: int
  w_student :: string
  w_score :: rat
  w_max_score :: rat
  w_percentage :: rat

definition create_worker_sends :: "string list list \<Rightarrow> worker_state list" where
  "create_worker_sends batches =
     map (\<lambda>(i, b). \<lparr>worker_id = int i, batch = b\<rparr>) (enumerate 0 batches)"

text \<open>
  The worker calls the tool \<open>assess_student_exam\<close> of the server once per student. The tool
  is a parameter here: it takes the email and the state and returns the parsed JSON text,
  or \<open>Inl\<close> when the call or the parsing raises. A result is appended only when the JSON
  object has no key \<open>error\<close>; an exception is printed and the loop goes on.
\<close>

fun worker_loop ::
  "(string \<Rightarrow> 'w \<Rightarrow> (py_error + tool_json) \<times> 'w) \<Rightarrow> int \<Rightarrow> string list \<Rightarrow>
   worker_result list \<Rightarrow> 'w \<Rightarrow> worker_result list \<times> 'w" where
  "worker_loop tool wid [] results w = (results, w)"
| "worker_loop tool wid (student_email # rest) results w =
     (case tool student_email w of
        (Inr (ResultJson assessment_data), w') \<Rightarrow>
          worker_loop tool wid rest
            (results @ [\<lparr>w_worker_id = wid, w_student = student_email,
                          w_score = r_calculated_score assessment_data,
                          w_max_score = r_max_score assessment_data,
                          w_percentage = r_percentage assessment_data\<rparr>]) w'
      | (Inr (ErrorJson msg), w') \<Rightarrow> worker_loop tool wid rest results w'
      | (Inl exn, w') \<Rightarrow> worker_loop tool wid rest results w')"

definition worker_node ::
  "(string \<Rightarrow> 'w \<Rightarrow> (py_error + tool_json) \<times> 'w) \<Rightarrow> worker_state \<Rightarrow> 'w \<Rightarrow>
   worker_result list \<times> 'w" where
  "worker_node tool state w = worker_loop tool (worker_id state + 1) (batch state) [] w"

text \<open>The workers of one run, in the order of their \<open>Send\<close> objects; the lists they return
  are added to the \<open>assessments\<close> of the graph state (\<open>operator.add\<close>).\<close>

fun run_workers ::
  "(string \<Rightarrow> 'w \<Rightarrow> (py_error + tool_json) \<times> 'w) \<Rightarrow> worker_state list \<Rightarrow>
   worker_result list \<Rightarrow> 'w \<Rightarrow> worker_result list \<times> 'w" where
  "run_workers tool [] state_assessments w = (state_assessments, w)"
| "run_workers tool (send # rest) state_assessments w =
     (case worker_node tool send w of
        (results, w') \<Rightarrow> run_workers tool rest (state_assessments @ results) w')"

subsection \<open>\<open>report_node\<close>\<close>

text \<open>The report is the data its text is printed from: the configuration, the global
  statistics, one entry per worker and one line per assessment.\<close>

record report_line =
  rl_index :: nat
  rl_email_preview :: string
  rl_score :: rat
  rl_max_score :: rat
  rl_percentage :: rat
  rl_worker_id :: int

record report =
  rp_num_workers :: int
  rp_total_students :: nat
  rp_avg_score :: rat
  rp_max_score :: rat
  rp_min_score :: rat
  rp_worker_stats :: "(int \<times> nat \<times> rat) list"
  rp_lines :: "report_line list"

datatype report_result = ReportText string | Report report

definition report_node :: "worker_result list \<Rightarrow> int \<Rightarrow> report_result" where
  "report_node state_assessments state_num_workers =
     (if state_assessments = [] then ReportText ''Nessuna valutazione completata''
      else
        let sorted_assessments = sort_key w_student state_assessments;
            scores = map w_score sorted_assessments;
            avg_score = average scores;
            worker_ids = sort (remdups (map w_worker_id sorted_assessments));
            worker_stats =
              map (\<lambda>wid.
                     let wscores = map w_score (filter (\<lambda>a. w_worker_id a = wid) sorted_assessments)
                     in (wid, length wscores, average wscores)) worker_ids
        in Report
             \<lparr>rp_num_workers = state_num_workers,
              rp_total_students = length sorted_assessments,
              rp_avg_score = avg_score,
              rp_max_score = py_max scores,
              rp_min_score = py_min scores,
              rp_worker_stats = worker_stats,
              rp_lines =
                map (\<lambda>(i, a).
                       \<lparr>rl_index = i,
                        rl_email_preview = take 40 (w_student a) @ ''...'',
                        rl_score = w_score a,
                        rl_max_score = w_max_score a,
                        rl_percentage = w_percentage a,
                        rl_worker_id = w_worker_id a\<rparr>)
                  (enumerate 1 sorted_assessments)\<rparr>)"

subsection \<open>The graph: distribute, workers, report\<close>

text \<open>The workers run concurrently in the source; they share no state but the tool's, and
  their results are merged in worker order, so the run is modelled as the workers one
  after the other.\<close>

definition run_batches ::
  "(string \<Rightarrow> 'w \<Rightarrow> (py_error + tool_json) \<times> 'w) \<Rightarrow> student list \<Rightarrow> int \<Rightarrow> 'w \<Rightarrow>
   py_error + (worker_result list \<times> report_result) \<times> 'w" where
  "run_batches tool exam_students self_num_workers w =
     (case distribute_node exam_students self_num_workers of
        Inl exn \<Rightarrow> Inl exn
      | Inr upd \<Rightarrow>
          (case run_workers tool (create_worker_sends (student_batches upd)) [] w of
             (state_assessments, w') \<Rightarrow>
               Inr ((state_assessments, report_node state_assessments (num_workers upd)), w')))"

text \<open>The tool of the server, as the worker calls it.\<close>

definition server_tool :: "env \<Rightarrow> string \<Rightarrow> world \<Rightarrow> (py_error + tool_json) \<times> world" where
  "server_tool e student_email w =
     (case assess_student_exam_tool e student_email w of (json, w') \<Rightarrow> (Inr json, w'))"

section \<open>Test data\<close>

text \<open>The scenarios of the specification and a small exam, used to evaluate the
  definitions.\<close>

definition core_feature :: "string \<Rightarrow> bool \<Rightarrow> Feature \<times> FeatureAssessment" where
  "core_feature d s = (\<lparr>type = CORE, description = d\<rparr>, \<lparr>satisfied = s, motivation = ''''\<rparr>)"

definition important_feature :: "string \<Rightarrow> bool \<Rightarrow> Feature \<times> FeatureAssessment" where
  "important_feature d s =
     (\<lparr>type = DETAILS_IMPORTANT, description = d\<rparr>, \<lparr>satisfied = s, motivation = ''''\<rparr>)"

definition scenario_A :: "(Feature \<times> FeatureAssessment) list" where
  "scenario_A =
     [core_feature ''c1'' True, core_feature ''c2'' True, core_feature ''c3'' True,
      core_feature ''c4'' False, important_feature ''i1'' True, important_feature ''i2'' False]"

definition scenario_B :: "(Feature \<times> FeatureAssessment) list" where
  "scenario_B = [core_feature ''c1'' True, core_feature ''c2'' True]"

definition scenario_I :: "(Feature \<times> FeatureAssessment) list" where
  "scenario_I = [important_feature ''i1'' True, important_feature ''i2'' False]"

text \<open>A model that raises on the feature \<open>boom\<close> and is satisfied by every other one; a
  store of two questions; checklists for both in the context.\<close>

definition demo_env :: env where
  "demo_env =
     \<lparr>llm_invoke =
        (\<lambda>calls prompt.
           if p_feature prompt = ''boom'' then Inl (Exception ''model timeout'')
           else Inr \<lparr>satisfied = True, motivation = ''stated''\<rparr>),
      questions_store =
        [(''CI-1'', \<lparr>q_id = ''CI-1'', q_text = ''What is continuous integration?''\<rparr>),
         (''CI-2'', \<lparr>q_id = ''CI-2'', q_text = ''What is a pipeline?''\<rparr>)],
      evaluations_dir = ''evaluations'',
      writable = (\<lambda>student_email. student_email \<noteq> ''readonly@unibo.it'')\<rparr>"

definition demo_exam :: exam_data where
  "demo_exam =
     \<lparr>exam_id = ''se-2025-06-05'',
      questions =
        [\<lparr>qi_number = ''Question 1'', qi_id = ''CI-1'', qi_text = Some ''What is CI?'',
          qi_score = 5\<rparr>,
         \<lparr>qi_number = ''Question 2'', qi_id = ''CI-2'', qi_text = Some ''What is a pipeline?'',
          qi_score = 3\<rparr>,
         \<lparr>qi_number = ''Question 3'', qi_id = ''XX-9'', qi_text = None, qi_score = 3\<rparr>,
         \<lparr>qi_number = ''Question 4'', qi_id = ''ci-1'', qi_text = Some ''Again'', qi_score = 2\<rparr>],
      students =
        [\<lparr>email = ''mario.rossi@unibo.italy'',
          responses = [1 \<mapsto> ''It merges often'', 2 \<mapsto> ''stages'', 3 \<mapsto> ''text''],
          moodle_grade = Some 20, original_grades = None\<rparr>,
         \<lparr>email = ''mario.rossi@unibo.it'',
          responses = [1 \<mapsto> ''It merges often'', 4 \<mapsto> '' - ''],
          moodle_grade = None, original_grades = None\<rparr>,
         \<lparr>email = ''readonly@unibo.it'', responses = Map.empty,
          moodle_grade = None, original_grades = None\<rparr>]\<rparr>"

definition demo_world :: world where
  "demo_world =
     \<lparr>loaded_exams = [(''se-2025-06-05'', demo_exam)],
      loaded_checklists =
        [''CI-1'' \<mapsto> \<lparr>core = [''merge'', ''often''], details_important = []\<rparr>,
         ''CI-2'' \<mapsto> \<lparr>core = [''stages'', ''boom''], details_important = [''tools'']\<rparr>],
      solutions = Map.empty,
      llm_calls = [],
      evaluations = Map.empty\<rparr>"

text \<open>A roster of six students who answered nothing.\<close>

definition mk_student :: "string \<Rightarrow> student" where
  "mk_student e = \<lparr>email = e, responses = Map.empty, moodle_grade = None, original_grades = None\<rparr>"

definition roster6 :: "student list" where
  "roster6 = map mk_student [''s1'', ''s2'', ''s3'', ''s4'', ''s5'', ''s6'']"

text \<open>The run of the first student of the small exam: the second question has a feature on
  which the model raises, the third is unknown to the store, the fourth is unanswered.\<close>

definition demo_responses :: "int \<rightharpoonup> string" where
  "demo_responses = responses (students demo_exam ! 0)"

definition demo_run :: "(py_error + exam_result) \<times> world" where
  "demo_run =
     assess_student_exam demo_env ''mario.rossi@unibo.italy''
       ([questions demo_exam ! 0] @ questions demo_exam ! 1 # drop 2 (questions demo_exam))
       demo_responses True None demo_world"

text \<open>An exam of one question and two students; the directory of the second student
  cannot be written, so the assessment of that student fails.\<close>

definition demo_exam2 :: exam_data where
  "demo_exam2 =
     \<lparr>exam_id = ''se-2025-07-01'',
      questions = [questions demo_exam ! 0],
      students =
        [\<lparr>email = ''anna.verdi@unibo.it'', responses = [1 \<mapsto> ''It merges often''],
          moodle_grade = None, original_grades = None\<rparr>,
         \<lparr>email = ''readonly@unibo.it'', responses = [1 \<mapsto> ''It merges often''],
          moodle_grade = None, original_grades = None\<rparr>]\<rparr>"

definition demo_world2 :: world where
  "demo_world2 = demo_world\<lparr>loaded_exams := [(''se-2025-07-01'', demo_exam2)]\<rparr>"

definition demo_batch_run ::
  "py_error + (worker_result list \<times> report_result) \<times> world" where
  "demo_batch_run = run_batches (server_tool demo_env) (students demo_exam2) 1 demo_world2"

text \<open>A tool that counts its calls: it returns an error for one student, raises for
  another and returns a result for everyone else.\<close>

definition demo_result :: exam_result where
  "demo_result =
     \<lparr>r_student_email = [], r_calculated_score = 5, r_max_score = 5, r_percentage = 100,
      r_scoring_system = ''70% Core + 30% Important_Details'', r_assessments = [],
      r_original_grades = None, r_saved_files = None, r_moodle_grade = None\<rparr>"

definition demo_tool :: "string \<Rightarrow> nat \<Rightarrow> (py_error + tool_json) \<times> nat" where
  "demo_tool student_email calls =
     (if student_email = ''readonly@unibo.it'' then Inr (ErrorJson ''cannot write'')
      else if student_email = ''crash@unibo.it'' then Inl (Exception ''connection reset'')
      else Inr (ResultJson (demo_result\<lparr>r_student_email := student_email\<rparr>)),
      calls + 1)"

section \<open>Notions of the specification\<close>

text \<open>
  The failures of one answered question that the specification names, in terms of the steps
  of the \<open>try\<close> block at the state \<open>w\<close> in which the question is reached: the question
  cannot be resolved in the store, no checklist is found, or the answer is one that is
  judged and a judgment call raises.
\<close>

definition question_fails :: "env \<Rightarrow> question_info \<Rightarrow> string \<Rightarrow> world \<Rightarrow> bool" where
  "question_fails e question_info response_text w =
     (case store_question (questions_store e) (qi_id question_info) of
        Inl exn \<Rightarrow> True
      | Inr question \<Rightarrow>
          (case resolve_checklist question (qi_id question_info) w of
             (None, w1) \<Rightarrow> True
           | (Some checklist, w1) \<Rightarrow>
               response_text \<noteq> [] \<and> strip response_text \<noteq> ''-'' \<and>
               isl (fst (judge_features e question response_text
                           (enumerate_features (Some checklist)) [] [] w1))))"

text \<open>
  The matching policy as the specification words it, over one roster: an exact
  case-sensitive match first, then a case-insensitive exact match, then, for a query of at
  least 10 characters, the first entry whose identity starts with the query, case ignored.
\<close>

definition spec_resolve :: "string \<Rightarrow> student list \<Rightarrow> student option" where
  "spec_resolve query roster =
     (case find (\<lambda>s. email s = query) roster of
        Some s \<Rightarrow> Some s
      | None \<Rightarrow>
          (case find (\<lambda>s. lower (email s) = lower query) roster of
             Some s \<Rightarrow> Some s
           | None \<Rightarrow>
               if length query \<ge> 10
               then find (\<lambda>s. startswith (lower (email s)) (lower query)) roster
               else None))"

text \<open>A per-student assessment fails when the call of the tool raises or returns a JSON
  object with the key \<open>error\<close>.\<close>

definition assessment_failed :: "py_error + tool_json \<Rightarrow> bool" where
  "assessment_failed outcome =
     (case outcome of Inr (ResultJson assessment_data) \<Rightarrow> False | Inr (ErrorJson msg) \<Rightarrow> True
      | Inl exn \<Rightarrow> True)"

section \<open>Properties of rounding and of \<open>calculate_score\<close>\<close>


lemma round_half_even_of_int: "round_half_even (of_int k) = k"
  by (simp add: round_half_even_def)

lemma round_half_even_lower: "\<lfloor>x\<rfloor> \<le> round_half_even x"
  by (simp add: round_half_even_def Let_def)

lemma round_half_even_upper: "round_half_even x \<le> \<lfloor>x\<rfloor> + 1"
  by (simp add: round_half_even_def Let_def)

lemma round_half_even_mono:
  assumes "x \<le> y"
  shows "round_half_even x \<le> round_half_even y"
proof (cases "\<lfloor>x\<rfloor> = \<lfloor>y\<rfloor>")
  case True
  have "x - of_int \<lfloor>x\<rfloor> \<le> y - of_int \<lfloor>y\<rfloor>"
    using assms True by simp
  then show ?thesis
    using True by (auto simp: round_half_even_def Let_def)
next
  case False
  have "\<lfloor>x\<rfloor> \<le> \<lfloor>y\<rfloor>" using assms by (rule floor_mono)
  with False have "\<lfloor>x\<rfloor> + 1 \<le> \<lfloor>y\<rfloor>" by simp
  then show ?thesis
    using round_half_even_upper [of x] round_half_even_lower [of y] by linarith
qed

lemma py_round_idem: "py_round (py_round x n) n = py_round x n"
  by (simp add: py_round_def round_half_even_of_int)

lemma py_round_mono: "x \<le> y \<Longrightarrow> py_round x n \<le> py_round y n"
  by (simp add: py_round_def round_half_even_mono divide_right_mono mult_right_mono)

lemma py_round_zero: "py_round 0 n = 0"
  using round_half_even_of_int [of 0] by (simp add: py_round_def)

lemma core_total_pos: "0 < core_total_of d \<longleftrightarrow> (\<exists>p\<in>set d. type (fst p) = CORE)"
  by (force simp: core_total_of_def filter_empty_conv)

lemma important_total_pos:
  "0 < important_total_of d \<longleftrightarrow> (\<exists>p\<in>set d. type (fst p) = DETAILS_IMPORTANT)"
  by (force simp: important_total_of_def filter_empty_conv)

lemma core_satisfied_le: "core_satisfied_of d \<le> core_total_of d"
  unfolding core_satisfied_of_def core_total_of_def
  by (induction d) (auto split: prod.splits)

lemma important_satisfied_le: "important_satisfied_of d \<le> important_total_of d"
  unfolding important_satisfied_of_def important_total_of_def
  by (induction d) (auto split: prod.splits)

lemma totals_nonempty: "d \<noteq> [] \<Longrightarrow> 0 < core_total_of d \<or> 0 < important_total_of d"
  unfolding core_total_of_def important_total_of_def
  by (cases d) (auto split: prod.splits intro: FeatureType.exhaust)


lemma calculate_score_both:
  assumes "0 < core_total_of d" "0 < important_total_of d"
  shows "fst (calculate_score d m) =
           py_round ((of_nat (core_satisfied_of d) / of_nat (core_total_of d) * (70 / 100)
                      + of_nat (important_satisfied_of d) / of_nat (important_total_of d) * (30 / 100)) * m) 2"
    and "\<exists>s. snd (snd (calculate_score d m)) = Stats s \<and> gs_weight (st_core s) = 70 / 100
              \<and> gs_weight (st_details_important s) = 30 / 100
              \<and> st_scoring_system s = ''70% Core + 30% Important''"
proof -
  from assms have "d \<noteq> []" by (auto simp: core_total_of_def)
  with assms show "fst (calculate_score d m) =
           py_round ((of_nat (core_satisfied_of d) / of_nat (core_total_of d) * (70 / 100)
                      + of_nat (important_satisfied_of d) / of_nat (important_total_of d) * (30 / 100)) * m) 2"
    by (simp add: calculate_score_def Let_def mult.commute)
  from assms \<open>d \<noteq> []\<close> show "\<exists>s. snd (snd (calculate_score d m)) = Stats s \<and> gs_weight (st_core s) = 70 / 100
              \<and> gs_weight (st_details_important s) = 30 / 100
              \<and> st_scoring_system s = ''70% Core + 30% Important''"
    by (simp add: calculate_score_def Let_def)
qed

lemma calculate_score_core_only:
  assumes "0 < core_total_of d" "important_total_of d = 0"
  shows "fst (calculate_score d m) =
           py_round (of_nat (core_satisfied_of d) / of_nat (core_total_of d) * m) 2"
    and "\<exists>s. snd (snd (calculate_score d m)) = Stats s \<and> gs_weight (st_core s) = 1
              \<and> gs_weight (st_details_important s) = 0
              \<and> st_scoring_system s = ''100% Core (no Important details)''"
proof -
  from assms have "d \<noteq> []" by (auto simp: core_total_of_def)
  with assms show "fst (calculate_score d m) =
           py_round (of_nat (core_satisfied_of d) / of_nat (core_total_of d) * m) 2"
    by (simp add: calculate_score_def Let_def)
  from assms \<open>d \<noteq> []\<close> show "\<exists>s. snd (snd (calculate_score d m)) = Stats s \<and> gs_weight (st_core s) = 1
              \<and> gs_weight (st_details_important s) = 0
              \<and> st_scoring_system s = ''100% Core (no Important details)''"
    by (simp add: calculate_score_def Let_def)
qed

lemma calculate_score_important_only:
  assumes "core_total_of d = 0" "0 < important_total_of d"
  shows "fst (calculate_score d m) =
           py_round (of_nat (important_satisfied_of d) / of_nat (important_total_of d) * m) 2"
    and "\<exists>s. snd (snd (calculate_score d m)) = Stats s \<and> gs_weight (st_core s) = 0
              \<and> gs_weight (st_details_important s) = 1
              \<and> st_scoring_system s = ''100% Important (no Core - unusual)''"
proof -
  from assms have "d \<noteq> []" by (auto simp: important_total_of_def)
  with assms show "fst (calculate_score d m) =
           py_round (of_nat (important_satisfied_of d) / of_nat (important_total_of d) * m) 2"
    by (simp add: calculate_score_def Let_def)
  from assms \<open>d \<noteq> []\<close> show "\<exists>s. snd (snd (calculate_score d m)) = Stats s \<and> gs_weight (st_core s) = 0
              \<and> gs_weight (st_details_important s) = 1
              \<and> st_scoring_system s = ''100% Important (no Core - unusual)''"
    by (simp add: calculate_score_def Let_def)
qed

lemma calculate_score_empty:
  "calculate_score [] m = (0, BreakdownText ''No features assessed'', EmptyStats)"
  by (simp add: calculate_score_def)


text \<open>
  Claim C1. \<open>calculate_score\<close> chooses the weights by what is present in the verdict
  dictionary: both Core and Important verdicts give 0.70 and 0.30, only Core verdicts give
  1.00 and 0.00, only Important verdicts give 0.00 and 1.00, and the score is the weighted
  sum of the two ratios times the maximum, rounded to two decimals; the empty dictionary
  gives the score 0.0, the breakdown \<open>No features assessed\<close> and empty statistics.
\<close>

theorem calculate_score_weight_selection:
  "(d = [] \<longrightarrow> calculate_score d m = (0, BreakdownText ''No features assessed'', EmptyStats)) \<and>
   ((\<exists>p\<in>set d. type (fst p) = CORE) \<and> (\<exists>p\<in>set d. type (fst p) = DETAILS_IMPORTANT) \<longrightarrow>
      fst (calculate_score d m) =
        py_round ((of_nat (core_satisfied_of d) / of_nat (core_total_of d) * (70 / 100)
                   + of_nat (important_satisfied_of d) / of_nat (important_total_of d) * (30 / 100))
                  * m) 2 \<and>
      (\<exists>s. snd (snd (calculate_score d m)) = Stats s \<and> gs_weight (st_core s) = 70 / 100 \<and>
           gs_weight (st_details_important s) = 30 / 100)) \<and>
   ((\<exists>p\<in>set d. type (fst p) = CORE) \<and> \<not> (\<exists>p\<in>set d. type (fst p) = DETAILS_IMPORTANT) \<longrightarrow>
      fst (calculate_score d m) =
        py_round (of_nat (core_satisfied_of d) / of_nat (core_total_of d) * m) 2 \<and>
      (\<exists>s. snd (snd (calculate_score d m)) = Stats s \<and> gs_weight (st_core s) = 1 \<and>
           gs_weight (st_details_important s) = 0)) \<and>
   (\<not> (\<exists>p\<in>set d. type (fst p) = CORE) \<and> (\<exists>p\<in>set d. type (fst p) = DETAILS_IMPORTANT) \<longrightarrow>
      fst (calculate_score d m) =
        py_round (of_nat (important_satisfied_of d) / of_nat (important_total_of d) * m) 2 \<and>
      (\<exists>s. snd (snd (calculate_score d m)) = Stats s \<and> gs_weight (st_core s) = 0 \<and>
           gs_weight (st_details_important s) = 1))"
proof (intro conjI impI)
  assume "d = []"
  then show "calculate_score d m = (0, BreakdownText ''No features assessed'', EmptyStats)"
    by (simp add: calculate_score_empty)
next
  assume h: "(\<exists>p\<in>set d. type (fst p) = CORE) \<and> (\<exists>p\<in>set d. type (fst p) = DETAILS_IMPORTANT)"
  then have c: "0 < core_total_of d" and i: "0 < important_total_of d"
    by (simp_all add: core_total_pos important_total_pos)
  show "fst (calculate_score d m) =
        py_round ((of_nat (core_satisfied_of d) / of_nat (core_total_of d) * (70 / 100)
                   + of_nat (important_satisfied_of d) / of_nat (important_total_of d) * (30 / 100))
                  * m) 2"
    by (rule calculate_score_both(1) [OF c i])
  show "\<exists>s. snd (snd (calculate_score d m)) = Stats s \<and> gs_weight (st_core s) = 70 / 100 \<and>
           gs_weight (st_details_important s) = 30 / 100"
    using calculate_score_both(2) [OF c i, of m] by blast
next
  assume h: "(\<exists>p\<in>set d. type (fst p) = CORE) \<and> \<not> (\<exists>p\<in>set d. type (fst p) = DETAILS_IMPORTANT)"
  then have c: "0 < core_total_of d" and i: "important_total_of d = 0"
    using important_total_pos [of d] by (simp_all add: core_total_pos)
  show "fst (calculate_score d m) =
        py_round (of_nat (core_satisfied_of d) / of_nat (core_total_of d) * m) 2"
    by (rule calculate_score_core_only(1) [OF c i])
  show "\<exists>s. snd (snd (calculate_score d m)) = Stats s \<and> gs_weight (st_core s) = 1 \<and>
           gs_weight (st_details_important s) = 0"
    using calculate_score_core_only(2) [OF c i, of m] by blast
next
  assume h: "\<not> (\<exists>p\<in>set d. type (fst p) = CORE) \<and> (\<exists>p\<in>set d. type (fst p) = DETAILS_IMPORTANT)"
  then have c: "core_total_of d = 0" and i: "0 < important_total_of d"
    using core_total_pos [of d] by (simp_all add: important_total_pos)
  show "fst (calculate_score d m) =
        py_round (of_nat (important_satisfied_of d) / of_nat (important_total_of d) * m) 2"
    by (rule calculate_score_important_only(1) [OF c i])
  show "\<exists>s. snd (snd (calculate_score d m)) = Stats s \<and> gs_weight (st_core s) = 0 \<and>
           gs_weight (st_details_important s) = 1"
    using calculate_score_important_only(2) [OF c i, of m] by blast
qed

lemma scenario_counts:
  "core_total_of scenario_A = 4" "core_satisfied_of scenario_A = 3"
  "important_total_of scenario_A = 2" "important_satisfied_of scenario_A = 1"
  "core_total_of scenario_B = 2" "core_satisfied_of scenario_B = 2"
  "important_total_of scenario_B = 0"
  "core_total_of scenario_I = 0"
  "important_total_of scenario_I = 2" "important_satisfied_of scenario_I = 1"
  by (simp_all add: scenario_A_def scenario_B_def scenario_I_def core_feature_def
      important_feature_def core_total_of_def core_satisfied_of_def important_total_of_def
      important_satisfied_of_def)

lemma py_round_examples:
  "py_round (27 / 4) 2 = 27 / 4" "py_round 5 2 = 5" "py_round (3 / 2) 2 = 3 / 2"
  "py_round (1 / 128) 2 = 1 / 100"
  by code_simp+

text \<open>The four cases at the empty dictionary, at scenario A (3 of 4 Core, 1 of 2
  Important, maximum 10: 6.75), at scenario B (2 of 2 Core, maximum 5: 5.00) and at a
  dictionary of Important verdicts only.\<close>

theorem calculate_score_weight_selection_witness:
  "calculate_score [] 10 = (0, BreakdownText ''No features assessed'', EmptyStats) \<and>
   (\<exists>p\<in>set scenario_A. type (fst p) = CORE) \<and>
   (\<exists>p\<in>set scenario_A. type (fst p) = DETAILS_IMPORTANT) \<and>
   fst (calculate_score scenario_A 10) = 675 / 100 \<and>
   (\<exists>p\<in>set scenario_B. type (fst p) = CORE) \<and>
   \<not> (\<exists>p\<in>set scenario_B. type (fst p) = DETAILS_IMPORTANT) \<and>
   fst (calculate_score scenario_B 5) = 5 \<and>
   \<not> (\<exists>p\<in>set scenario_I. type (fst p) = CORE) \<and>
   (\<exists>p\<in>set scenario_I. type (fst p) = DETAILS_IMPORTANT) \<and>
   fst (calculate_score scenario_I 3) = 3 / 2"
proof -
  have A: "(\<exists>p\<in>set scenario_A. type (fst p) = CORE) \<and>
           (\<exists>p\<in>set scenario_A. type (fst p) = DETAILS_IMPORTANT)"
    by (simp add: scenario_A_def core_feature_def important_feature_def)
  have B: "(\<exists>p\<in>set scenario_B. type (fst p) = CORE) \<and>
           \<not> (\<exists>p\<in>set scenario_B. type (fst p) = DETAILS_IMPORTANT)"
    by (simp add: scenario_B_def core_feature_def)
  have I: "\<not> (\<exists>p\<in>set scenario_I. type (fst p) = CORE) \<and>
           (\<exists>p\<in>set scenario_I. type (fst p) = DETAILS_IMPORTANT)"
    by (simp add: scenario_I_def important_feature_def)
  have "calculate_score [] 10 = (0, BreakdownText ''No features assessed'', EmptyStats)"
    using calculate_score_weight_selection [of "[]" 10] by simp
  moreover have "fst (calculate_score scenario_A 10) = 675 / 100"
    using calculate_score_weight_selection [of scenario_A 10] A
    by (simp add: scenario_counts py_round_examples)
  moreover have "fst (calculate_score scenario_B 5) = 5"
    using calculate_score_weight_selection [of scenario_B 5] B
    by (simp add: scenario_counts py_round_examples)
  moreover have "fst (calculate_score scenario_I 3) = 3 / 2"
    using calculate_score_weight_selection [of scenario_I 3] I
    by (simp add: scenario_counts py_round_examples)
  ultimately show ?thesis using A B I by blast
qed

lemma weighted_ratio_bounds:
  fixes a b :: nat and w :: rat
  assumes "a \<le> b" "0 \<le> w"
  shows "0 \<le> (if b > 0 then of_nat a / of_nat b * w else 0)"
    and "(if b > 0 then of_nat a / of_nat b * w else 0) \<le> w"
proof -
  have r: "0 \<le> (of_nat a / of_nat b :: rat)" "(of_nat a / of_nat b :: rat) \<le> 1"
    using assms(1) by (cases "b = 0"; simp add: divide_le_eq_1)+
  show "0 \<le> (if b > 0 then of_nat a / of_nat b * w else 0)"
    using r(1) assms(2) by simp
  have "of_nat a / of_nat b * w \<le> w"
    by (rule mult_left_le_one_le [OF assms(2) r])
  then show "(if b > 0 then of_nat a / of_nat b * w else 0) \<le> w"
    using assms(2) by simp
qed

lemma final_percentage_bounds:
  fixes cs ct js jt :: nat
  assumes "cs \<le> ct" "js \<le> jt" "0 \<le> cw" "0 \<le> iw" "cw + iw = (1::rat)"
  shows "0 \<le> (if ct > 0 then of_nat cs / of_nat ct * cw else 0)
              + (if jt > 0 then of_nat js / of_nat jt * iw else 0)"
    and "(if ct > 0 then of_nat cs / of_nat ct * cw else 0)
              + (if jt > 0 then of_nat js / of_nat jt * iw else 0) \<le> 1"
proof -
  note a = weighted_ratio_bounds [OF assms(1) assms(3)]
  note b = weighted_ratio_bounds [OF assms(2) assms(4)]
  show "0 \<le> (if ct > 0 then of_nat cs / of_nat ct * cw else 0)
              + (if jt > 0 then of_nat js / of_nat jt * iw else 0)"
    using a(1) b(1) by (rule add_nonneg_nonneg)
  show "(if ct > 0 then of_nat cs / of_nat ct * cw else 0)
              + (if jt > 0 then of_nat js / of_nat jt * iw else 0) \<le> 1"
    using add_mono [OF a(2) b(2)] assms(5) by simp
qed

lemma calculate_score_as_round:
  assumes "d \<noteq> []"
  shows "\<exists>p. 0 \<le> p \<and> p \<le> 1 \<and> fst (calculate_score d m) = py_round (p * m) 2"
proof -
  have le: "core_satisfied_of d \<le> core_total_of d"
    "important_satisfied_of d \<le> important_total_of d"
    by (rule core_satisfied_le, rule important_satisfied_le)
  consider (both) "0 < core_total_of d" "0 < important_total_of d"
    | (core) "0 < core_total_of d" "important_total_of d = 0"
    | (imp) "core_total_of d = 0" "0 < important_total_of d"
    using totals_nonempty [OF assms] by fastforce
  then show ?thesis
  proof cases
    case both
    from final_percentage_bounds [OF le, of "70 / 100" "30 / 100"] both
    have "(0::rat) \<le> of_nat (core_satisfied_of d) / of_nat (core_total_of d) * (70 / 100)
                   + of_nat (important_satisfied_of d) / of_nat (important_total_of d) * (30 / 100)"
      and "of_nat (core_satisfied_of d) / of_nat (core_total_of d) * (70 / 100)
                   + of_nat (important_satisfied_of d) / of_nat (important_total_of d) * (30 / 100) \<le> (1::rat)"
      by simp_all
    then show ?thesis using calculate_score_both(1) [OF both, of m] by blast
  next
    case core
    from final_percentage_bounds [OF le, of 1 0] core
    have "0 \<le> (of_nat (core_satisfied_of d) / of_nat (core_total_of d) :: rat)"
      and "of_nat (core_satisfied_of d) / of_nat (core_total_of d) \<le> (1::rat)"
      by simp_all
    then show ?thesis using calculate_score_core_only(1) [OF core, of m] by blast
  next
    case imp
    from final_percentage_bounds [OF le, of 0 1] imp
    have "0 \<le> (of_nat (important_satisfied_of d) / of_nat (important_total_of d) :: rat)"
      and "of_nat (important_satisfied_of d) / of_nat (important_total_of d) \<le> (1::rat)"
      by simp_all
    then show ?thesis using calculate_score_important_only(1) [OF imp, of m] by blast
  qed
qed

text \<open>
  Claim C2, as amended. For a non-empty verdict dictionary and a non-negative maximum the
  score is at least 0, at most the maximum rounded to two decimals, and equal to its own
  rounding to two decimals; it is at most the maximum itself when the maximum has at most
  two decimals.
\<close>

theorem calculate_score_bounds:
  assumes "d \<noteq> []" and "0 \<le> m"
  shows "0 \<le> fst (calculate_score d m) \<and>
         fst (calculate_score d m) \<le> py_round m 2 \<and>
         py_round (fst (calculate_score d m)) 2 = fst (calculate_score d m) \<and>
         (py_round m 2 = m \<longrightarrow> fst (calculate_score d m) \<le> m)"
proof -
  obtain p where p: "0 \<le> p" "p \<le> 1" and s: "fst (calculate_score d m) = py_round (p * m) 2"
    using calculate_score_as_round [OF assms(1)] by blast
  have "0 \<le> p * m" using p(1) assms(2) by simp
  then have lo: "0 \<le> py_round (p * m) 2"
    using py_round_mono [of 0 "p * m" 2] by (simp add: py_round_zero)
  have "p * m \<le> m" using p assms(2) by (simp add: mult_left_le_one_le)
  then have hi: "py_round (p * m) 2 \<le> py_round m 2" by (rule py_round_mono)
  show ?thesis using lo hi s by (simp add: py_round_idem)
qed

text \<open>Scenario A with the maximum 10.\<close>

theorem calculate_score_bounds_witness:
  "scenario_A \<noteq> [] \<and> (0::rat) \<le> 10 \<and> py_round 10 2 = 10 \<and>
   fst (calculate_score scenario_A 10) = 675 / 100 \<and>
   0 \<le> fst (calculate_score scenario_A 10) \<and> fst (calculate_score scenario_A 10) \<le> 10"
proof -
  have ne: "scenario_A \<noteq> []" by (simp add: scenario_A_def)
  have r: "py_round 10 2 = 10" by code_simp
  have v: "fst (calculate_score scenario_A 10) = 675 / 100"
    by (simp add: calculate_score_both(1) scenario_counts py_round_examples)
  show ?thesis using calculate_score_bounds [OF ne, of 10] ne r v by simp
qed

text \<open>
  Claim C2 as stated fails: one satisfied Core feature and the maximum 1/128 = 0.0078125
  give the score 0.01, which is above the maximum.
\<close>

theorem calculate_score_exceeds_max_counterexample:
  "\<not> (0 \<le> fst (calculate_score [core_feature ''c1'' True] (1 / 128)) \<and>
      fst (calculate_score [core_feature ''c1'' True] (1 / 128)) \<le> 1 / 128 \<and>
      py_round (fst (calculate_score [core_feature ''c1'' True] (1 / 128))) 2 =
        fst (calculate_score [core_feature ''c1'' True] (1 / 128)))"
proof -
  have "fst (calculate_score [core_feature ''c1'' True] (1 / 128)) = 1 / 100"
    by (simp add: calculate_score_def core_feature_def core_total_of_def core_satisfied_of_def
        important_total_of_def important_satisfied_of_def Let_def py_round_examples)
  then show ?thesis by simp
qed

text \<open>
  Claim C9. \<open>weight_percentage\<close> is 0.70 for a Core feature and 0.20 for an Important
  one; the weight \<open>calculate_score\<close> gives the Important group when both groups are
  present is 0.30, which is not the \<open>weight_percentage\<close> of an Important feature.
\<close>

theorem weight_percentage_values:
  "weight_percentage \<lparr>type = CORE, description = c\<rparr> = 70 / 100 \<and>
   weight_percentage \<lparr>type = DETAILS_IMPORTANT, description = i\<rparr> = 20 / 100 \<and>
   ((\<exists>p\<in>set d. type (fst p) = CORE) \<and> (\<exists>p\<in>set d. type (fst p) = DETAILS_IMPORTANT) \<longrightarrow>
     (\<exists>s. snd (snd (calculate_score d m)) = Stats s \<and>
          gs_weight (st_details_important s) = 30 / 100 \<and>
          gs_weight (st_details_important s) \<noteq>
            weight_percentage \<lparr>type = DETAILS_IMPORTANT, description = i\<rparr>))"
proof (intro conjI impI)
  show "weight_percentage \<lparr>type = CORE, description = c\<rparr> = 70 / 100"
    by (simp add: weight_percentage_def)
  show w: "weight_percentage \<lparr>type = DETAILS_IMPORTANT, description = i\<rparr> = 20 / 100"
    by (simp add: weight_percentage_def)
  assume "(\<exists>p\<in>set d. type (fst p) = CORE) \<and> (\<exists>p\<in>set d. type (fst p) = DETAILS_IMPORTANT)"
  then have "0 < core_total_of d" "0 < important_total_of d"
    by (simp_all add: core_total_pos important_total_pos)
  from calculate_score_both(2) [OF this, of m] w
  show "\<exists>s. snd (snd (calculate_score d m)) = Stats s \<and>
          gs_weight (st_details_important s) = 30 / 100 \<and>
          gs_weight (st_details_important s) \<noteq>
            weight_percentage \<lparr>type = DETAILS_IMPORTANT, description = i\<rparr>"
    by auto
qed


text \<open>Scenario A has both groups: the Important group weighs 0.30 there.\<close>

theorem weight_percentage_values_witness:
  "(\<exists>p\<in>set scenario_A. type (fst p) = CORE) \<and>
   (\<exists>p\<in>set scenario_A. type (fst p) = DETAILS_IMPORTANT) \<and>
   weight_percentage \<lparr>type = DETAILS_IMPORTANT, description = ''i1''\<rparr> = 20 / 100 \<and>
   (\<exists>s. snd (snd (calculate_score scenario_A 10)) = Stats s \<and>
        gs_weight (st_details_important s) = 30 / 100)"
proof -
  have A: "(\<exists>p\<in>set scenario_A. type (fst p) = CORE) \<and>
           (\<exists>p\<in>set scenario_A. type (fst p) = DETAILS_IMPORTANT)"
    by (simp add: scenario_A_def core_feature_def important_feature_def)
  show ?thesis
    using weight_percentage_values [of "''c1''" "''i1''" scenario_A 10] A by blast
qed

section \<open>Properties of \<open>distribute_node\<close>\<close>


lemma py_slice_nat:
  "0 \<le> i \<Longrightarrow> 0 \<le> b \<Longrightarrow> py_slice xs i (i + b) = take (nat b) (drop (nat i) xs)"
  by (auto simp: py_slice_def slice_index_def Let_def min_def nat_add_distrib)

lemma concat_batches:
  "0 < b \<Longrightarrow> 0 \<le> i \<Longrightarrow>
   concat (map (\<lambda>j. py_slice xs j (j + b)) (range_up i (int (length xs)) b)) = drop (nat i) xs"
proof (induction i "int (length xs)" b rule: range_up.induct)
  case (1 i step)
  show ?case
  proof (cases "i < int (length xs)")
    case True
    have step: "range_up i (int (length xs)) step = i # range_up (i + step) (int (length xs)) step"
      using True 1(2) by (simp add: range_up.simps [of i])
    have IH: "concat (map (\<lambda>j. py_slice xs j (j + step))
                 (range_up (i + step) (int (length xs)) step)) = drop (nat (i + step)) xs"
      using 1 True by simp
    have d: "drop (nat (i + step)) xs = drop (nat step) (drop (nat i) xs)"
      using 1(2,3) by (simp add: nat_add_distrib add.commute)
    have "concat (map (\<lambda>j. py_slice xs j (j + step)) (range_up i (int (length xs)) step))
          = take (nat step) (drop (nat i) xs) @ drop (nat step) (drop (nat i) xs)"
      using 1(2,3) by (simp only: step list.map concat.simps IH d py_slice_nat)
    then show ?thesis by (simp only: append_take_drop_id)
  next
    case False
    then show ?thesis using 1(2,3) by (simp add: range_up.simps [of i])
  qed
qed

lemma batches_nonempty:
  "0 < b \<Longrightarrow> 0 \<le> i \<Longrightarrow>
   \<forall>x\<in>set (map (\<lambda>j. py_slice xs j (j + b)) (range_up i (int (length xs)) b)).
      0 < length x \<and> length x \<le> nat b"
proof (induction i "int (length xs)" b rule: range_up.induct)
  case (1 i step)
  show ?case
  proof (cases "i < int (length xs)")
    case True
    have unf: "range_up i (int (length xs)) step = i # range_up (i + step) (int (length xs)) step"
      using True 1(2) by (simp add: range_up.simps [of i])
    have IH: "\<forall>x\<in>set (map (\<lambda>j. py_slice xs j (j + step))
                 (range_up (i + step) (int (length xs)) step)). 0 < length x \<and> length x \<le> nat step"
      using 1 True by simp
    have hd: "0 < length (py_slice xs i (i + step)) \<and> length (py_slice xs i (i + step)) \<le> nat step"
      using True 1(2,3) by (simp add: py_slice_nat)
    show ?thesis unfolding unf using IH hd by simp
  next
    case False
    then show ?thesis by (simp add: range_up.simps [of i])
  qed
qed

lemma batches_full:
  "0 < b \<Longrightarrow> 0 \<le> i \<Longrightarrow>
   \<forall>x\<in>set (butlast (map (\<lambda>j. py_slice xs j (j + b)) (range_up i (int (length xs)) b))).
      length x = nat b"
proof (induction i "int (length xs)" b rule: range_up.induct)
  case (1 i step)
  show ?case
  proof (cases "i < int (length xs)")
    case True
    have unf: "range_up i (int (length xs)) step = i # range_up (i + step) (int (length xs)) step"
      using True 1(2) by (simp add: range_up.simps [of i])
    have IH: "\<forall>x\<in>set (butlast (map (\<lambda>j. py_slice xs j (j + step))
                 (range_up (i + step) (int (length xs)) step))). length x = nat step"
      using 1 True by simp
    show ?thesis
    proof (cases "i + step < int (length xs)")
      case True
      then have "length (py_slice xs i (i + step)) = nat step"
        using 1(2,3) by (simp add: py_slice_nat)
      then show ?thesis unfolding unf using IH by simp
    next
      case False
      then have "range_up (i + step) (int (length xs)) step = []"
        by (simp add: range_up.simps [of "i + step"])
      then show ?thesis unfolding unf by simp
    qed
  next
    case False
    then show ?thesis by (simp add: range_up.simps [of i])
  qed
qed

lemma distribute_node_pos:
  assumes "0 < W"
  shows "distribute_node roster W =
         Inr \<lparr>student_batches =
                map (\<lambda>j. py_slice (map email roster) j (j + (int (length roster) div W + 1)))
                  (range_up 0 (int (length (map email roster))) (int (length roster) div W + 1)),
              num_workers =
                int (length (range_up 0 (int (length (map email roster)))
                               (int (length roster) div W + 1)))\<rparr>"
proof -
  have "0 \<le> int (length roster) div W" using assms by (simp add: pos_imp_zdiv_nonneg_iff)
  then have "0 < int (length roster) div W + 1" by simp
  then show ?thesis
    using assms by (simp add: distribute_node_def py_floordiv_def py_range_def Let_def)
qed

lemma distribute_node_zero: "distribute_node roster 0 = Inl ZeroDivisionError"
  by (simp add: distribute_node_def py_floordiv_def)

lemma disjoint_in_concat:
  "distinct (concat bs) \<Longrightarrow> i < j \<Longrightarrow> j < length bs \<Longrightarrow> set (bs ! i) \<inter> set (bs ! j) = {}"
proof (induction bs arbitrary: i j)
  case Nil
  then show ?case by simp
next
  case (Cons b bs)
  show ?case
  proof (cases i)
    case 0
    from Cons.prems(2,3) 0 obtain j' where j': "j = Suc j'" "j' < length bs"
      by (cases j) auto
    then have "bs ! j' \<in> set bs" by simp
    then have "set (bs ! j') \<subseteq> set (concat bs)" by auto
    moreover have "set b \<inter> set (concat bs) = {}" using Cons.prems(1) by simp
    ultimately show ?thesis using 0 j' by auto
  next
    case (Suc i')
    from Cons.prems(2,3) Suc obtain j' where j': "j = Suc j'" "j' < length bs" "i' < j'"
      by (cases j) auto
    have "distinct (concat bs)" using Cons.prems(1) by simp
    from Cons.IH [OF this j'(3) j'(2)] show ?thesis using Suc j' by simp
  qed
qed

lemma batch_size_ceiling:
  fixes R W :: int
  assumes "0 < W"
  shows "\<not> W dvd R \<Longrightarrow> R div W + 1 = \<lceil>rat_of_int R / rat_of_int W\<rceil>"
    and "W dvd R \<Longrightarrow> R div W + 1 = \<lceil>rat_of_int R / rat_of_int W\<rceil> + 1"
proof -
  have c: "\<lceil>rat_of_int R / rat_of_int W\<rceil> = - (- R div W)"
    by (rule ceiling_divide_eq_div)
  have nz: "W \<noteq> 0" using assms by simp
  show "\<not> W dvd R \<Longrightarrow> R div W + 1 = \<lceil>rat_of_int R / rat_of_int W\<rceil>"
    unfolding c by (simp add: zdiv_zminus1_eq_if [OF nz] dvd_eq_mod_eq_0)
  show "W dvd R \<Longrightarrow> R div W + 1 = \<lceil>rat_of_int R / rat_of_int W\<rceil> + 1"
    unfolding c by (simp add: zdiv_zminus1_eq_if [OF nz] dvd_eq_mod_eq_0)
qed

text \<open>
  Claim C5, as amended. For a worker count of at least 1 the roster is cut, in order, into
  consecutive batches of \<open>len(roster) // num_workers + 1\<close> students, only the last batch
  possibly shorter (and never empty); that size is \<open>ceil(R/W)\<close> exactly when \<open>W\<close> does not
  divide \<open>R\<close>, and one more when it does. A worker count of 0 produces no partition.
\<close>

theorem distribute_node_batch_sizes:
  assumes "0 \<le> W"
  shows "(0 < W \<longrightarrow> (\<exists>upd. distribute_node roster W = Inr upd)) \<and>
         (\<forall>upd. distribute_node roster W = Inr upd \<longrightarrow>
            concat (student_batches upd) = map email roster \<and>
            (\<forall>b\<in>set (butlast (student_batches upd)).
               int (length b) = int (length roster) div W + 1) \<and>
            (student_batches upd \<noteq> [] \<longrightarrow>
               0 < length (last (student_batches upd)) \<and>
               int (length (last (student_batches upd))) \<le> int (length roster) div W + 1) \<and>
            (\<not> W dvd int (length roster) \<longrightarrow>
               int (length roster) div W + 1
                 = \<lceil>rat_of_int (int (length roster)) / rat_of_int W\<rceil>) \<and>
            (W dvd int (length roster) \<longrightarrow>
               int (length roster) div W + 1
                 = \<lceil>rat_of_int (int (length roster)) / rat_of_int W\<rceil> + 1))"
proof (cases "W = 0")
  case True
  then show ?thesis by (simp add: distribute_node_zero)
next
  case False
  with assms have W: "0 < W" by simp
  define bsz where "bsz = int (length roster) div W + 1"
  define bs where "bs = map (\<lambda>j. py_slice (map email roster) j (j + bsz))
                          (range_up 0 (int (length (map email roster))) bsz)"
  have "0 \<le> int (length roster) div W" using W by (simp add: pos_imp_zdiv_nonneg_iff)
  then have pos: "0 < bsz" by (simp add: bsz_def)
  have eq: "distribute_node roster W =
            Inr \<lparr>student_batches = bs,
                 num_workers = int (length (range_up 0 (int (length (map email roster))) bsz))\<rparr>"
    unfolding bs_def bsz_def by (rule distribute_node_pos [OF W])
  have cc: "concat bs = map email roster"
    unfolding bs_def using concat_batches [OF pos, of 0 "map email roster"] by simp
  have full: "\<forall>b\<in>set (butlast bs). int (length b) = bsz"
    unfolding bs_def using batches_full [OF pos, of 0 "map email roster"] pos by simp
  have ne: "\<forall>x\<in>set bs. 0 < length x \<and> length x \<le> nat bsz"
    unfolding bs_def using batches_nonempty [OF pos, of 0 "map email roster"] by simp
  have lst: "bs \<noteq> [] \<longrightarrow> 0 < length (last bs) \<and> int (length (last bs)) \<le> bsz"
  proof
    assume "bs \<noteq> []"
    then have "last bs \<in> set bs" by simp
    with ne have "0 < length (last bs) \<and> length (last bs) \<le> nat bsz" by blast
    then show "0 < length (last bs) \<and> int (length (last bs)) \<le> bsz" using pos by linarith
  qed
  show ?thesis
    using eq cc full lst batch_size_ceiling [OF W, of "int (length roster)"]
    by (simp add: bsz_def)
qed

theorem distribute_node_batch_sizes_witness:
  "(0::int) \<le> 3 \<and>
   distribute_node roster6 3 =
     Inr \<lparr>student_batches = [[''s1'', ''s2'', ''s3''], [''s4'', ''s5'', ''s6'']], num_workers = 2\<rparr> \<and>
   concat [[''s1'', ''s2'', ''s3''], [''s4'', ''s5'', ''s6'']] = map email roster6 \<and>
   (3::int) dvd int (length roster6) \<and>
   int (length roster6) div 3 + 1 = \<lceil>rat_of_int (int (length roster6)) / rat_of_int 3\<rceil> + 1"
proof -
  have d: "distribute_node roster6 3 =
     Inr \<lparr>student_batches = [[''s1'', ''s2'', ''s3''], [''s4'', ''s5'', ''s6'']], num_workers = 2\<rparr>"
    by code_simp
  have l: "(3::int) dvd int (length roster6)" by (simp add: roster6_def)
  show ?thesis
    using distribute_node_batch_sizes [of 3 roster6] d l by simp
qed

text \<open>
  Claim C5 as stated fails: six students and three workers give two batches of three
  students, while \<open>ceil(6/3)\<close> is 2.
\<close>

theorem distribute_node_ceil_counterexample:
  "distribute_node roster6 3 =
     Inr \<lparr>student_batches = [[''s1'', ''s2'', ''s3''], [''s4'', ''s5'', ''s6'']], num_workers = 2\<rparr> \<and>
   int (length [''s1'', ''s2'', ''s3'']) \<noteq> \<lceil>6 / 3 :: rat\<rceil>"
proof -
  have d: "distribute_node roster6 3 =
     Inr \<lparr>student_batches = [[''s1'', ''s2'', ''s3''], [''s4'', ''s5'', ''s6'']], num_workers = 2\<rparr>"
    by code_simp
  have "\<lceil>6 / 3 :: rat\<rceil> = 2" by code_simp
  then show ?thesis using d by simp
qed

text \<open>
  Claim C6. For a worker count of at least 1 the partition returns batches whose
  concatenation, in batch order, is the roster; the number of workers it reports is the
  number of batches; and when the roster has no repeated email, two different batches share
  no student. A worker count of 0 produces no partition.
\<close>

theorem distribute_node_partition:
  assumes "0 \<le> W"
  shows "(0 < W \<longrightarrow> (\<exists>upd. distribute_node roster W = Inr upd)) \<and>
         (\<forall>upd. distribute_node roster W = Inr upd \<longrightarrow>
            concat (student_batches upd) = map email roster \<and>
            num_workers upd = int (length (student_batches upd)) \<and>
            (distinct (map email roster) \<longrightarrow>
               (\<forall>i j. i < j \<and> j < length (student_batches upd) \<longrightarrow>
                  set (student_batches upd ! i) \<inter> set (student_batches upd ! j) = {})))"
proof (cases "W = 0")
  case True
  then show ?thesis by (simp add: distribute_node_zero)
next
  case False
  with assms have W: "0 < W" by simp
  define bsz where "bsz = int (length roster) div W + 1"
  define bs where "bs = map (\<lambda>j. py_slice (map email roster) j (j + bsz))
                          (range_up 0 (int (length (map email roster))) bsz)"
  have "0 \<le> int (length roster) div W" using W by (simp add: pos_imp_zdiv_nonneg_iff)
  then have pos: "0 < bsz" by (simp add: bsz_def)
  have eq: "distribute_node roster W =
            Inr \<lparr>student_batches = bs,
                 num_workers = int (length (range_up 0 (int (length (map email roster))) bsz))\<rparr>"
    unfolding bs_def bsz_def by (rule distribute_node_pos [OF W])
  have len: "length bs = length (range_up 0 (int (length (map email roster))) bsz)"
    by (simp add: bs_def)
  have cc: "concat bs = map email roster"
    unfolding bs_def using concat_batches [OF pos, of 0 "map email roster"] by simp
  have dj: "distinct (map email roster) \<longrightarrow>
              (\<forall>i j. i < j \<and> j < length bs \<longrightarrow> set (bs ! i) \<inter> set (bs ! j) = {})"
    using disjoint_in_concat [of bs] cc by simp
  show ?thesis using eq cc dj len by simp
qed

theorem distribute_node_partition_witness:
  "(0::int) \<le> 4 \<and> distinct (map email roster6) \<and>
   distribute_node roster6 4 =
     Inr \<lparr>student_batches = [[''s1'', ''s2''], [''s3'', ''s4''], [''s5'', ''s6'']],
          num_workers = 3\<rparr> \<and>
   concat [[''s1'', ''s2''], [''s3'', ''s4''], [''s5'', ''s6'']] = map email roster6 \<and>
   set [''s1'', ''s2''] \<inter> set [''s5'', ''s6''] = {}"
proof -
  have d: "distribute_node roster6 4 =
     Inr \<lparr>student_batches = [[''s1'', ''s2''], [''s3'', ''s4''], [''s5'', ''s6'']],
          num_workers = 3\<rparr>"
    by code_simp
  have dist: "distinct (map email roster6)" by code_simp
  have "set ([[''s1'', ''s2''], [''s3'', ''s4''], [''s5'', ''s6'']] ! 0)
        \<inter> set ([[''s1'', ''s2''], [''s3'', ''s4''], [''s5'', ''s6'']] ! 2) = {}"
    using distribute_node_partition [of 4 roster6] d dist by simp
  moreover have "concat [[''s1'', ''s2''], [''s3'', ''s4''], [''s5'', ''s6'']] = map email roster6"
    using distribute_node_partition [of 4 roster6] d by simp
  ultimately show ?thesis using d dist by simp
qed

section \<open>Unanswered questions\<close>


lemma load_cache_llm_calls: "llm_calls (snd (load_cache question w)) = llm_calls w"
  by (simp add: load_cache_def split: option.splits)

lemma resolve_checklist_llm_calls:
  "llm_calls (snd (resolve_checklist question qid w)) = llm_calls w"
  using load_cache_llm_calls [of question w]
  by (auto simp: resolve_checklist_def split: option.splits prod.splits)

lemma assess_single_answer_no_response:
  assumes "student_response = [] \<or> strip student_response = ''-''"
  shows "assess_single_answer e question checklist student_response max_score w =
           (\<lparr>a_status = ''no_response'', a_score = 0, a_max_score = max_score,
             a_statistics = None, a_breakdown = None, a_feature_assessments = None,
             a_error = None\<rparr>, w)"
  using assms by (simp add: assess_single_answer_def)

lemma try_assess_no_response_calls:
  assumes "student_response = [] \<or> strip student_response = ''-''"
  shows "llm_calls (snd (try_assess e question_info n student_response w)) = llm_calls w"
proof (cases "store_question (questions_store e) (qi_id question_info)")
  case (Inl exn)
  then show ?thesis by (simp add: try_assess_def)
next
  case (Inr question)
  obtain c w1 where r: "resolve_checklist question (qi_id question_info) w = (c, w1)"
    by (cases "resolve_checklist question (qi_id question_info) w")
  have w1: "llm_calls w1 = llm_calls w"
    using resolve_checklist_llm_calls [of question "qi_id question_info" w] r by simp
  show ?thesis
    using Inr r w1 assess_single_answer_no_response [OF assms]
    by (cases c) (simp_all add: try_assess_def)
qed

text \<open>
  Claim C3. An answer that is empty or strips to \<open>-\<close> makes \<open>assess_single_answer\<close> return
  the status \<open>no_response\<close>, the score 0.0 and the question's maximum, with the state, and so
  the list of calls of the model, unchanged; within \<open>assess_student_exam\<close> such an answer
  causes no call of the model either, and a question whose number is not among the
  student's responses gets a \<open>no_response\<close> entry with the score 0.0 and the question's
  maximum while the state is left as it was.
\<close>

theorem no_response_zero_judge_calls:
  "(student_response = [] \<or> strip student_response = ''-'' \<longrightarrow>
      a_status (fst (assess_single_answer e question checklist student_response max_score w))
        = ''no_response'' \<and>
      a_score (fst (assess_single_answer e question checklist student_response max_score w)) = 0 \<and>
      a_max_score (fst (assess_single_answer e question checklist student_response max_score w))
        = max_score \<and>
      snd (assess_single_answer e question checklist student_response max_score w) = w \<and>
      llm_calls (snd (assess_single_answer e question checklist student_response max_score w))
        = llm_calls w \<and>
      llm_calls (snd (try_assess e question_info n student_response w)) = llm_calls w) \<and>
   (question_number question_info = Some n \<and> student_responses n = None \<longrightarrow>
      (\<exists>a. assess_question e student_responses question_info st =
              Inr (st\<lparr>assessments := assessments st @ [a],
                      total_max_score := total_max_score st + qi_score question_info\<rparr>) \<and>
           a_status a = ''no_response'' \<and> a_score a = 0 \<and>
           a_max_score a = qi_score question_info \<and> a_feature_assessments a = None))"
proof (intro conjI impI)
  assume h: "student_response = [] \<or> strip student_response = ''-''"
  note eq = assess_single_answer_no_response [OF h, of e question checklist max_score w]
  show "a_status (fst (assess_single_answer e question checklist student_response max_score w))
        = ''no_response''"
    by (simp add: eq)
  show "a_score (fst (assess_single_answer e question checklist student_response max_score w)) = 0"
    by (simp add: eq)
  show "a_max_score (fst (assess_single_answer e question checklist student_response max_score w))
        = max_score"
    by (simp add: eq)
  show "snd (assess_single_answer e question checklist student_response max_score w) = w"
    by (simp add: eq)
  show "llm_calls (snd (assess_single_answer e question checklist student_response max_score w))
        = llm_calls w"
    by (simp add: eq)
  show "llm_calls (snd (try_assess e question_info n student_response w)) = llm_calls w"
    by (rule try_assess_no_response_calls [OF h])
next
  assume "question_number question_info = Some n \<and> student_responses n = None"
  then show "\<exists>a. assess_question e student_responses question_info st =
              Inr (st\<lparr>assessments := assessments st @ [a],
                      total_max_score := total_max_score st + qi_score question_info\<rparr>) \<and>
           a_status a = ''no_response'' \<and> a_score a = 0 \<and>
           a_max_score a = qi_score question_info \<and> a_feature_assessments a = None"
    by (intro exI [of _ "\<lparr>a_status = ''no_response'', a_score = 0,
                          a_max_score = qi_score question_info,
                          a_statistics = None, a_breakdown = None,
                          a_feature_assessments = None, a_error = None,
                          a_question_number = n,
                          a_question_id = qi_id question_info,
                          a_question_text = qi_text question_info,
                          a_student_response = None\<rparr>"])
       (simp add: assess_question_def)
qed

lemma demo_facts:
  "strip '' - '' = ''-''"
  "question_number (questions demo_exam ! 3) = Some 4"
  "responses (students demo_exam ! 0) 4 = None"
  by code_simp+

theorem no_response_zero_judge_calls_witness:
  "strip '' - '' = ''-'' \<and>
   a_status (fst (assess_single_answer demo_env \<lparr>q_id = ''CI-1'', q_text = ''What?''\<rparr> None
                    '' - '' 5 demo_world)) = ''no_response'' \<and>
   llm_calls (snd (assess_single_answer demo_env \<lparr>q_id = ''CI-1'', q_text = ''What?''\<rparr> None
                    '' - '' 5 demo_world)) = llm_calls demo_world \<and>
   question_number (questions demo_exam ! 3) = Some 4 \<and>
   responses (students demo_exam ! 0) 4 = None \<and>
   (\<exists>a. assess_question demo_env (responses (students demo_exam ! 0)) (questions demo_exam ! 3)
           \<lparr>assessments = [], total_score = 0, total_max_score = 0, loop_world = demo_world\<rparr>
         = Inr \<lparr>assessments = [a], total_score = 0,
                total_max_score = qi_score (questions demo_exam ! 3), loop_world = demo_world\<rparr> \<and>
        a_status a = ''no_response'')"
  using no_response_zero_judge_calls
          [of "'' - ''" demo_env "\<lparr>q_id = ''CI-1'', q_text = ''What?''\<rparr>" None 5 demo_world
              "questions demo_exam ! 3" 4 "responses (students demo_exam ! 0)"
              "\<lparr>assessments = [], total_score = 0, total_max_score = 0, loop_world = demo_world\<rparr>"]
        demo_facts
  by auto

section \<open>The loop of \<open>assess_student_exam\<close>\<close>


lemma assess_single_answer_max_score:
  "a_max_score (fst (assess_single_answer e question checklist student_response max_score w))
     = max_score"
  by (auto simp: assess_single_answer_def split: prod.splits sum.splits)

lemma assess_single_answer_status:
  "a_status (fst (assess_single_answer e question checklist student_response max_score w))
     \<in> {''no_response'', ''assessed'', ''error''}"
  by (auto simp: assess_single_answer_def split: prod.splits sum.splits)

lemma assess_single_answer_error:
  assumes "student_response \<noteq> []" "strip student_response \<noteq> ''-''"
    and "isl (fst (judge_features e question student_response (enumerate_features checklist) [] [] w))"
  shows "a_status (fst (assess_single_answer e question checklist student_response max_score w))
           = ''error'' \<and>
         a_score (fst (assess_single_answer e question checklist student_response max_score w)) = 0 \<and>
         a_error (fst (assess_single_answer e question checklist student_response max_score w))
           \<noteq> None"
  using assms by (auto simp: assess_single_answer_def split: prod.splits sum.splits)

text \<open>What one iteration appends.\<close>

lemma try_assess_entry:
  assumes "try_assess e question_info n response_text w = (Inr a, w')"
  shows "a_question_id a = qi_id question_info \<and> a_max_score a = qi_score question_info \<and>
         a_question_number a = n"
proof -
  obtain question where q: "store_question (questions_store e) (qi_id question_info) = Inr question"
    using assms by (cases "store_question (questions_store e) (qi_id question_info)")
      (simp_all add: try_assess_def)
  obtain c w1 where r: "resolve_checklist question (qi_id question_info) w = (c, w1)"
    by (cases "resolve_checklist question (qi_id question_info) w")
  obtain checklist where c: "c = Some checklist"
    using assms q r by (cases c) (simp_all add: try_assess_def)
  obtain a0 w2 where s: "assess_single_answer e question (Some checklist) response_text
                           (qi_score question_info) w1 = (a0, w2)"
    by (cases "assess_single_answer e question (Some checklist) response_text
                 (qi_score question_info) w1")
  have m: "a_max_score a0 = qi_score question_info"
    using assess_single_answer_max_score
            [of e question "Some checklist" response_text "qi_score question_info" w1] s
    by simp
  from assms q r c s have "a = single_assessment.extend a0
                            \<lparr>a_question_number = n,
                             a_question_id = qi_id question_info,
                             a_question_text = Some (q_text question),
                             a_student_response = Some response_text\<rparr>"
    by (simp add: try_assess_def)
  then show ?thesis using m by (simp add: single_assessment.defs)
qed

lemma assess_question_appends:
  assumes "assess_question e student_responses question_info st = Inr st'"
  shows "\<exists>a. assessments st' = assessments st @ [a] \<and>
             a_question_id a = qi_id question_info \<and>
             a_max_score a = qi_score question_info \<and>
             Some (a_question_number a) = question_number question_info"
proof -
  obtain n where n: "question_number question_info = Some n"
    using assms by (cases "question_number question_info") (simp_all add: assess_question_def)
  show ?thesis
  proof (cases "student_responses n")
    case None
    then show ?thesis using assms n by (auto simp: assess_question_def)
  next
    case (Some response_text)
    obtain x w' where t: "try_assess e question_info n response_text (loop_world st) = (x, w')"
      by (cases "try_assess e question_info n response_text (loop_world st)")
    show ?thesis
    proof (cases x)
      case (Inl exn)
      then show ?thesis using assms n Some t by (auto simp: assess_question_def)
    next
      case (Inr a)
      then have "try_assess e question_info n response_text (loop_world st) = (Inr a, w')"
        using t by simp
      from try_assess_entry [OF this] show ?thesis
        using assms n Some t Inr by (auto simp: assess_question_def)
    qed
  qed
qed

lemma assess_questions_entries:
  "assess_questions e student_responses qs st = Inr st' \<Longrightarrow>
   map a_question_id (assessments st') = map a_question_id (assessments st) @ map qi_id qs \<and>
   map a_max_score (assessments st') = map a_max_score (assessments st) @ map qi_score qs \<and>
   map (\<lambda>a. Some (a_question_number a)) (assessments st')
     = map (\<lambda>a. Some (a_question_number a)) (assessments st) @ map question_number qs"
proof (induction qs arbitrary: st)
  case Nil
  then show ?case by simp
next
  case (Cons q qs)
  from Cons.prems obtain st1 where
    s1: "assess_question e student_responses q st = Inr st1"
    and s2: "assess_questions e student_responses qs st1 = Inr st'"
    by (cases "assess_question e student_responses q st") simp_all
  from assess_question_appends [OF s1] obtain a where
    a: "assessments st1 = assessments st @ [a]" "a_question_id a = qi_id q"
       "a_max_score a = qi_score q" "Some (a_question_number a) = question_number q"
    by blast
  from Cons.IH [OF s2] a show ?case by simp
qed

lemma assess_questions_split:
  "assess_questions e student_responses (pre @ q # post) st = Inr st' \<Longrightarrow>
   \<exists>st1 st2. assess_questions e student_responses pre st = Inr st1 \<and>
             assess_question e student_responses q st1 = Inr st2 \<and>
             assess_questions e student_responses post st2 = Inr st'"
proof (induction pre arbitrary: st)
  case Nil
  then show ?case
    by (cases "assess_question e student_responses q st") simp_all
next
  case (Cons p pre)
  from Cons.prems obtain st0 where
    s0: "assess_question e student_responses p st = Inr st0"
    and s1: "assess_questions e student_responses (pre @ q # post) st0 = Inr st'"
    by (cases "assess_question e student_responses p st") simp_all
  from Cons.IH [OF s1] s0 show ?case by simp
qed

lemma assess_questions_length:
  "assess_questions e student_responses qs st = Inr st' \<Longrightarrow>
   length (assessments st') = length (assessments st) + length qs"
  using assess_questions_entries [of e student_responses qs st st']
  by (metis length_append length_map)

lemma assess_questions_prefix:
  "assess_questions e student_responses qs st = Inr st' \<Longrightarrow>
   take (length (assessments st)) (assessments st') = assessments st"
proof (induction qs arbitrary: st)
  case Nil
  then show ?case by simp
next
  case (Cons q qs)
  from Cons.prems obtain st1 where
    s1: "assess_question e student_responses q st = Inr st1"
    and s2: "assess_questions e student_responses qs st1 = Inr st'"
    by (cases "assess_question e student_responses q st") simp_all
  from assess_question_appends [OF s1] obtain a where
    a: "assessments st1 = assessments st @ [a]" by blast
  from Cons.IH [OF s2] have "take (length (assessments st1)) (assessments st') = assessments st1" .
  then have "take (length (assessments st)) (take (length (assessments st1)) (assessments st'))
             = take (length (assessments st)) (assessments st1)" by simp
  then show ?case using a by (simp add: min_def)
qed

lemma assess_question_failure:
  assumes "assess_question e student_responses question_info st = Inr st'"
    and "question_number question_info = Some n"
    and "student_responses n = Some response_text"
    and "question_fails e question_info response_text (loop_world st)"
  shows "\<exists>a. assessments st' = assessments st @ [a] \<and> a_status a = ''error'' \<and>
             a_score a = 0 \<and> a_max_score a = qi_score question_info \<and> a_error a \<noteq> None"
proof (cases "store_question (questions_store e) (qi_id question_info)")
  case (Inl exn)
  then show ?thesis using assms(1,2,3) by (auto simp: assess_question_def try_assess_def)
next
  case (Inr question)
  obtain c w1 where r: "resolve_checklist question (qi_id question_info) (loop_world st) = (c, w1)"
    by (cases "resolve_checklist question (qi_id question_info) (loop_world st)")
  show ?thesis
  proof (cases c)
    case None
    then show ?thesis
      using assms(1,2,3) Inr r by (auto simp: assess_question_def try_assess_def)
  next
    case (Some checklist)
    from assms(4) Inr r Some have f: "response_text \<noteq> []" "strip response_text \<noteq> ''-''"
      "isl (fst (judge_features e question response_text
                   (enumerate_features (Some checklist)) [] [] w1))"
      by (simp_all add: question_fails_def)
    obtain a0 w2 where s: "assess_single_answer e question (Some checklist) response_text
                             (qi_score question_info) w1 = (a0, w2)"
      by (cases "assess_single_answer e question (Some checklist) response_text
                   (qi_score question_info) w1")
    from assess_single_answer_error [OF f, of "qi_score question_info"] s
    have a0: "a_status a0 = ''error''" "a_score a0 = 0" "a_error a0 \<noteq> None" by simp_all
    have m: "a_max_score a0 = qi_score question_info"
      using assess_single_answer_max_score
              [of e question "Some checklist" response_text "qi_score question_info" w1] s
      by simp
    show ?thesis
      using assms(1,2,3) Inr r Some s a0 m
      by (auto simp: assess_question_def try_assess_def single_assessment.defs)
  qed
qed

lemma assess_student_exam_Inr:
  assumes "assess_student_exam e student_email qs student_responses save_results og w = (Inr r, w')"
  shows "\<exists>st. assess_questions e student_responses qs
                \<lparr>assessments = [], total_score = 0, total_max_score = 0, loop_world = w\<rparr> = Inr st \<and>
              r_assessments r = assessments st \<and>
              r_scoring_system r = ''70% Core + 30% Important_Details''"
proof (cases "assess_questions e student_responses qs
                \<lparr>assessments = [], total_score = 0, total_max_score = 0, loop_world = w\<rparr>")
  case (Inl exn)
  then show ?thesis using assms by (simp add: assess_student_exam_def)
next
  case (Inr st)
  then show ?thesis using assms
    by (auto simp: assess_student_exam_def Let_def save_assessment_results_def
             split: if_splits sum.splits prod.splits)
qed


lemma exam_entries_when_returned:
  assumes "assess_student_exam e student_email (pre @ question_info # post) student_responses
             save_results og w = (Inr r, w')"
  shows "length (r_assessments r) = length (pre @ question_info # post) \<and>
         map a_question_id (r_assessments r) = map qi_id (pre @ question_info # post) \<and>
         map a_max_score (r_assessments r) = map qi_score (pre @ question_info # post) \<and>
         map (\<lambda>a. Some (a_question_number a)) (r_assessments r)
           = map question_number (pre @ question_info # post) \<and>
         (\<exists>st1 st2 st3.
            assess_questions e student_responses pre
              \<lparr>assessments = [], total_score = 0, total_max_score = 0, loop_world = w\<rparr> = Inr st1 \<and>
            assess_question e student_responses question_info st1 = Inr st2 \<and>
            assessments st2 = assessments st1 @ [r_assessments r ! length pre] \<and>
            assess_questions e student_responses post st2 = Inr st3 \<and>
            r_assessments r = assessments st3 \<and>
            (\<forall>n response_text.
               question_number question_info = Some n \<and>
               student_responses n = Some response_text \<and>
               question_fails e question_info response_text (loop_world st1) \<longrightarrow>
               a_status (r_assessments r ! length pre) = ''error'' \<and>
               a_score (r_assessments r ! length pre) = 0 \<and>
               a_max_score (r_assessments r ! length pre) = qi_score question_info \<and>
               a_error (r_assessments r ! length pre) \<noteq> None))"
proof -
  let ?init = "\<lparr>assessments = [], total_score = 0, total_max_score = 0, loop_world = w\<rparr>"
  from assess_student_exam_Inr [OF assms] obtain st3 where
    run: "assess_questions e student_responses (pre @ question_info # post) ?init = Inr st3"
    and res: "r_assessments r = assessments st3"
    by blast
  from assess_questions_split [OF run] obtain st1 st2 where
    s1: "assess_questions e student_responses pre ?init = Inr st1"
    and s2: "assess_question e student_responses question_info st1 = Inr st2"
    and s3: "assess_questions e student_responses post st2 = Inr st3"
    by blast
  have l1: "length (assessments st1) = length pre"
    using assess_questions_length [OF s1] by simp
  from assess_question_appends [OF s2] obtain a where
    a: "assessments st2 = assessments st1 @ [a]" by blast
  have "take (length (assessments st2)) (assessments st3) = assessments st2"
    by (rule assess_questions_prefix [OF s3])
  moreover have "(assessments st1 @ [a]) ! length (assessments st1) = a" by simp
  ultimately have "take (length (assessments st2)) (assessments st3) ! length pre = a"
    using a l1 by simp
  then have nth: "assessments st3 ! length pre = a"
    using a l1 by simp
  have ent: "map a_question_id (assessments st3) = map qi_id (pre @ question_info # post)"
    "map a_max_score (assessments st3) = map qi_score (pre @ question_info # post)"
    "map (\<lambda>a. Some (a_question_number a)) (assessments st3)
       = map question_number (pre @ question_info # post)"
    using assess_questions_entries [OF run] by simp_all
  have len: "length (assessments st3) = length (pre @ question_info # post)"
    using assess_questions_length [OF run] by simp
  have fail: "\<forall>n response_text.
               question_number question_info = Some n \<and>
               student_responses n = Some response_text \<and>
               question_fails e question_info response_text (loop_world st1) \<longrightarrow>
               a_status a = ''error'' \<and> a_score a = 0 \<and>
               a_max_score a = qi_score question_info \<and> a_error a \<noteq> None"
  proof (intro allI impI)
    fix n response_text
    assume h: "question_number question_info = Some n \<and>
               student_responses n = Some response_text \<and>
               question_fails e question_info response_text (loop_world st1)"
    from assess_question_failure [OF s2, of n response_text] h a
    show "a_status a = ''error'' \<and> a_score a = 0 \<and>
          a_max_score a = qi_score question_info \<and> a_error a \<noteq> None"
      by auto
  qed
  have ex: "\<exists>st1 st2 st3.
            assess_questions e student_responses pre ?init = Inr st1 \<and>
            assess_question e student_responses question_info st1 = Inr st2 \<and>
            assessments st2 = assessments st1 @ [r_assessments r ! length pre] \<and>
            assess_questions e student_responses post st2 = Inr st3 \<and>
            r_assessments r = assessments st3 \<and>
            (\<forall>n response_text.
               question_number question_info = Some n \<and>
               student_responses n = Some response_text \<and>
               question_fails e question_info response_text (loop_world st1) \<longrightarrow>
               a_status (r_assessments r ! length pre) = ''error'' \<and>
               a_score (r_assessments r ! length pre) = 0 \<and>
               a_max_score (r_assessments r ! length pre) = qi_score question_info \<and>
               a_error (r_assessments r ! length pre) \<noteq> None)"
    using s1 s2 s3 a res nth fail by (intro exI [of _ st1] exI [of _ st2] exI [of _ st3]) simp
  show ?thesis using ent len res ex by simp
qed

text \<open>The loop returns when every question number can be read: every other failure is
  turned into an entry.\<close>

lemma assess_question_total:
  "question_number question_info \<noteq> None \<Longrightarrow>
   \<exists>st'. assess_question e student_responses question_info st = Inr st'"
  by (auto simp: assess_question_def split: option.splits prod.splits sum.splits)

lemma assess_questions_total:
  "\<forall>q\<in>set qs. question_number q \<noteq> None \<Longrightarrow>
   \<exists>st'. assess_questions e student_responses qs st = Inr st'"
proof (induction qs arbitrary: st)
  case Nil
  then show ?case by simp
next
  case (Cons q qs)
  from Cons.prems have "question_number q \<noteq> None" by simp
  from assess_question_total [OF this] obtain st1 where
    "assess_question e student_responses q st = Inr st1" by blast
  moreover from Cons.IH [of st1] Cons.prems obtain st2 where
    "assess_questions e student_responses qs st1 = Inr st2" by auto
  ultimately show ?case by simp
qed

lemma assess_student_exam_total:
  assumes "(\<forall>q\<in>set qs. question_number q \<noteq> None) \<and>
           (save_results \<longrightarrow> writable e student_email)"
  shows "\<exists>r w'. assess_student_exam e student_email qs student_responses save_results og w
                  = (Inr r, w')"
proof -
  from assess_questions_total [of qs e student_responses
         "\<lparr>assessments = [], total_score = 0, total_max_score = 0, loop_world = w\<rparr>"] assms
  obtain st where "assess_questions e student_responses qs
         \<lparr>assessments = [], total_score = 0, total_max_score = 0, loop_world = w\<rparr> = Inr st"
    by blast
  then show ?thesis using assms
    by (auto simp: assess_student_exam_def Let_def save_assessment_results_def)
qed

text \<open>
  Claim C7. \<open>assess_student_exam\<close> returns whenever the question numbers can be read
  (and the result can be saved, when saving is asked for), whatever fails in the store, the
  checklists or the model. When it returns, its list of assessments has exactly one entry
  per exam question, in the order of the questions, each with the identifier, the number
  and the maximum of its question. The loop reaches every question: it runs over the
  questions before one, over that one, and over the questions after it. And an answered
  question that fails (it cannot be resolved, no checklist is found, or a judgment call
  raises) has an entry with the status \<open>error\<close>, the score 0.0, its maximum and a message.
\<close>

theorem assess_student_exam_error_isolation:
  "((\<forall>q\<in>set (pre @ question_info # post). question_number q \<noteq> None) \<and>
    (save_results \<longrightarrow> writable e student_email) \<longrightarrow>
    (\<exists>r w'. assess_student_exam e student_email (pre @ question_info # post) student_responses
               save_results og w = (Inr r, w'))) \<and>
   (assess_student_exam e student_email (pre @ question_info # post) student_responses
      save_results og w = (Inr r, w') \<longrightarrow>
    length (r_assessments r) = length (pre @ question_info # post) \<and>
    map a_question_id (r_assessments r) = map qi_id (pre @ question_info # post) \<and>
    map a_max_score (r_assessments r) = map qi_score (pre @ question_info # post) \<and>
    map (\<lambda>a. Some (a_question_number a)) (r_assessments r)
      = map question_number (pre @ question_info # post) \<and>
    (\<exists>st1 st2 st3.
       assess_questions e student_responses pre
         \<lparr>assessments = [], total_score = 0, total_max_score = 0, loop_world = w\<rparr> = Inr st1 \<and>
       assess_question e student_responses question_info st1 = Inr st2 \<and>
       assessments st2 = assessments st1 @ [r_assessments r ! length pre] \<and>
       assess_questions e student_responses post st2 = Inr st3 \<and>
       r_assessments r = assessments st3 \<and>
       (\<forall>n response_text.
          question_number question_info = Some n \<and>
          student_responses n = Some response_text \<and>
          question_fails e question_info response_text (loop_world st1) \<longrightarrow>
          a_status (r_assessments r ! length pre) = ''error'' \<and>
          a_score (r_assessments r ! length pre) = 0 \<and>
          a_max_score (r_assessments r ! length pre) = qi_score question_info \<and>
          a_error (r_assessments r ! length pre) \<noteq> None)))"
proof (intro conjI impI)
  assume "(\<forall>q\<in>set (pre @ question_info # post). question_number q \<noteq> None) \<and>
          (save_results \<longrightarrow> writable e student_email)"
  then show "\<exists>r w'. assess_student_exam e student_email (pre @ question_info # post)
                     student_responses save_results og w = (Inr r, w')"
    using assess_student_exam_total
            [of "pre @ question_info # post" save_results e student_email student_responses og w]
    by blast
next
  assume run: "assess_student_exam e student_email (pre @ question_info # post) student_responses
                 save_results og w = (Inr r, w')"
  note ent = exam_entries_when_returned [OF run]
  show "length (r_assessments r) = length (pre @ question_info # post)" using ent by blast
  show "map a_question_id (r_assessments r) = map qi_id (pre @ question_info # post)"
    using ent by blast
  show "map a_max_score (r_assessments r) = map qi_score (pre @ question_info # post)"
    using ent by blast
  show "map (\<lambda>a. Some (a_question_number a)) (r_assessments r)
      = map question_number (pre @ question_info # post)"
    using ent by blast
  show "\<exists>st1 st2 st3.
       assess_questions e student_responses pre
         \<lparr>assessments = [], total_score = 0, total_max_score = 0, loop_world = w\<rparr> = Inr st1 \<and>
       assess_question e student_responses question_info st1 = Inr st2 \<and>
       assessments st2 = assessments st1 @ [r_assessments r ! length pre] \<and>
       assess_questions e student_responses post st2 = Inr st3 \<and>
       r_assessments r = assessments st3 \<and>
       (\<forall>n response_text.
          question_number question_info = Some n \<and>
          student_responses n = Some response_text \<and>
          question_fails e question_info response_text (loop_world st1) \<longrightarrow>
          a_status (r_assessments r ! length pre) = ''error'' \<and>
          a_score (r_assessments r ! length pre) = 0 \<and>
          a_max_score (r_assessments r ! length pre) = qi_score question_info \<and>
          a_error (r_assessments r ! length pre) \<noteq> None)"
    using ent by blast
qed

lemma demo_run_facts:
  "\<forall>q\<in>set ([questions demo_exam ! 0] @ questions demo_exam ! 1 # drop 2 (questions demo_exam)).
     question_number q \<noteq> None"
  "question_number (questions demo_exam ! 1) = Some 2"
  "demo_responses 2 = Some ''stages''"
  "map question_number
     ([questions demo_exam ! 0] @ questions demo_exam ! 1 # drop 2 (questions demo_exam))
     = [Some 1, Some 2, Some 3, Some 4]"
  "case assess_questions demo_env demo_responses [questions demo_exam ! 0]
          \<lparr>assessments = [], total_score = 0, total_max_score = 0, loop_world = demo_world\<rparr> of
     Inl exn \<Rightarrow> False
   | Inr st \<Rightarrow> question_fails demo_env (questions demo_exam ! 1) ''stages'' (loop_world st)"
  by code_simp+

text \<open>The run of the first student of the small exam returns; its second question, on
  which the model raises, has an \<open>error\<close> entry, and there are four entries.\<close>

theorem assess_student_exam_error_isolation_witness:
  "map question_number
     ([questions demo_exam ! 0] @ questions demo_exam ! 1 # drop 2 (questions demo_exam))
     = [Some 1, Some 2, Some 3, Some 4] \<and>
   writable demo_env ''mario.rossi@unibo.italy'' \<and>
   (\<exists>r w'. demo_run = (Inr r, w') \<and>
          question_number (questions demo_exam ! 1) = Some 2 \<and>
          demo_responses 2 = Some ''stages'' \<and>
          length (r_assessments r) = 4 \<and>
          a_status (r_assessments r ! 1) = ''error'' \<and>
          a_score (r_assessments r ! 1) = 0 \<and>
          a_error (r_assessments r ! 1) \<noteq> None)"
proof -
  have wr: "writable demo_env ''mario.rossi@unibo.italy''"
    by (simp add: demo_env_def)
  have "\<exists>r w'. demo_run = (Inr r, w')"
    unfolding demo_run_def
    using assess_student_exam_error_isolation
            [of "[questions demo_exam ! 0]" "questions demo_exam ! 1"
                "drop 2 (questions demo_exam)" True demo_env "''mario.rossi@unibo.italy''"
                demo_responses None demo_world]
          demo_run_facts(1) wr
    by blast
  then obtain r w' where run: "demo_run = (Inr r, w')" by blast
  have iso: "length (r_assessments r)
               = length ([questions demo_exam ! 0] @ questions demo_exam ! 1
                           # drop 2 (questions demo_exam)) \<and>
        (\<exists>st1 st2 st3.
           assess_questions demo_env demo_responses [questions demo_exam ! 0]
             \<lparr>assessments = [], total_score = 0, total_max_score = 0, loop_world = demo_world\<rparr>
             = Inr st1 \<and>
           assess_question demo_env demo_responses (questions demo_exam ! 1) st1 = Inr st2 \<and>
           assessments st2 = assessments st1 @ [r_assessments r ! length [questions demo_exam ! 0]] \<and>
           assess_questions demo_env demo_responses (drop 2 (questions demo_exam)) st2 = Inr st3 \<and>
           r_assessments r = assessments st3 \<and>
           (\<forall>n response_text.
               question_number (questions demo_exam ! 1) = Some n \<and>
               demo_responses n = Some response_text \<and>
               question_fails demo_env (questions demo_exam ! 1) response_text (loop_world st1) \<longrightarrow>
               a_status (r_assessments r ! length [questions demo_exam ! 0]) = ''error'' \<and>
               a_score (r_assessments r ! length [questions demo_exam ! 0]) = 0 \<and>
               a_max_score (r_assessments r ! length [questions demo_exam ! 0])
                 = qi_score (questions demo_exam ! 1) \<and>
               a_error (r_assessments r ! length [questions demo_exam ! 0]) \<noteq> None))"
    using assess_student_exam_error_isolation
            [of "[questions demo_exam ! 0]" "questions demo_exam ! 1"
                "drop 2 (questions demo_exam)" True demo_env "''mario.rossi@unibo.italy''"
                demo_responses None demo_world r w']
          run [unfolded demo_run_def]
    by blast
  from iso obtain st1 where
    s1: "assess_questions demo_env demo_responses [questions demo_exam ! 0]
           \<lparr>assessments = [], total_score = 0, total_max_score = 0, loop_world = demo_world\<rparr>
         = Inr st1"
    and f: "\<forall>n response_text.
               question_number (questions demo_exam ! 1) = Some n \<and>
               demo_responses n = Some response_text \<and>
               question_fails demo_env (questions demo_exam ! 1) response_text (loop_world st1) \<longrightarrow>
               a_status (r_assessments r ! length [questions demo_exam ! 0]) = ''error'' \<and>
               a_score (r_assessments r ! length [questions demo_exam ! 0]) = 0 \<and>
               a_max_score (r_assessments r ! length [questions demo_exam ! 0])
                 = qi_score (questions demo_exam ! 1) \<and>
               a_error (r_assessments r ! length [questions demo_exam ! 0]) \<noteq> None"
    by blast
  have qf: "question_fails demo_env (questions demo_exam ! 1) ''stages'' (loop_world st1)"
    using demo_run_facts(5) s1 by simp
  have e: "a_status (r_assessments r ! 1) = ''error'' \<and>
           a_score (r_assessments r ! 1) = 0 \<and>
           a_error (r_assessments r ! 1) \<noteq> None"
    using f demo_run_facts(2,3) qf by simp
  have "length (drop 2 (questions demo_exam)) = 2" by code_simp
  then have l: "length (r_assessments r) = 4" using iso by simp
  show ?thesis using run e l demo_run_facts(2,3,4) wr by blast
qed

lemma assess_student_exam_tool_Result:
  assumes "assess_student_exam_tool e query w = (ResultJson r, w')"
  shows "r_scoring_system r = ''70% Core + 30% Important_Details''"
proof -
  let ?clean = "strip (rstrip_chars ''.'' query)"
  obtain student_data exam_questions matched_email where
    f: "find_student ?clean (loaded_exams w) = Some (student_data, exam_questions, matched_email)"
    using assms
    by (cases "find_student ?clean (loaded_exams w)") (auto simp: assess_student_exam_tool_def)
  obtain x w1 where
    a: "assess_student_exam e matched_email exam_questions (responses student_data) True
          (original_grades student_data) w = (x, w1)"
    by (cases "assess_student_exam e matched_email exam_questions (responses student_data) True
                 (original_grades student_data) w")
  from assms f a obtain result where x: "x = Inr result"
    and r: "r = result\<lparr>r_moodle_grade := moodle_grade student_data\<rparr>"
    by (cases x) (auto simp: assess_student_exam_tool_def)
  from assess_student_exam_Inr [OF a [unfolded x]] r show ?thesis by auto
qed

text \<open>
  Claim C10. The result of \<open>assess_student_exam\<close>, and so the result that the tool of the
  server returns, carries the label \<open>70% Core + 30% Important_Details\<close> whatever the
  questions, the answers and the weights used for each question.
\<close>

theorem scoring_system_label_constant:
  "(assess_student_exam e student_email exam_questions student_responses save_results og w
      = (Inr r, w') \<longrightarrow>
    r_scoring_system r = ''70% Core + 30% Important_Details'') \<and>
   (assess_student_exam_tool e query w = (ResultJson r2, w2) \<longrightarrow>
    r_scoring_system r2 = ''70% Core + 30% Important_Details'')"
  using assess_student_exam_Inr [of e student_email exam_questions student_responses
          save_results og w r w']
        assess_student_exam_tool_Result [of e query w r2 w2]
  by blast

lemma demo_label_facts:
  "\<not> isl (fst demo_run)"
  "case fst demo_run of
     Inl exn \<Rightarrow> False
   | Inr r \<Rightarrow>
       (case a_statistics (r_assessments r ! 0) of
          Some (Stats s) \<Rightarrow> st_scoring_system s = ''100% Core (no Important details)''
        | _ \<Rightarrow> False)"
  "case fst (assess_student_exam_tool demo_env ''Mario.Rossi@UNIBO.italy.'' demo_world) of
     ResultJson r \<Rightarrow> True | ErrorJson m \<Rightarrow> False"
  by code_simp+

text \<open>The first question of the small exam is scored with 100% Core; the label of the
  result is the constant all the same.\<close>

theorem scoring_system_label_constant_witness:
  "\<exists>r w' r2 w2.
     demo_run = (Inr r, w') \<and>
     assess_student_exam_tool demo_env ''Mario.Rossi@UNIBO.italy.'' demo_world
       = (ResultJson r2, w2) \<and>
     r_scoring_system r = ''70% Core + 30% Important_Details'' \<and>
     r_scoring_system r2 = ''70% Core + 30% Important_Details'' \<and>
     (\<exists>s. a_statistics (r_assessments r ! 0) = Some (Stats s) \<and>
          st_scoring_system s = ''100% Core (no Important details)'')"
proof -
  obtain r where r: "fst demo_run = Inr r"
    using demo_label_facts(1) by (cases "fst demo_run") simp_all
  obtain w' where w': "snd demo_run = w'" by simp
  have run: "demo_run = (Inr r, w')"
    using r w' by (simp add: prod_eq_iff)
  obtain r2 where r2: "fst (assess_student_exam_tool demo_env ''Mario.Rossi@UNIBO.italy.''
                              demo_world) = ResultJson r2"
    using demo_label_facts(3)
    by (cases "fst (assess_student_exam_tool demo_env ''Mario.Rossi@UNIBO.italy.'' demo_world)")
       simp_all
  then have tool: "assess_student_exam_tool demo_env ''Mario.Rossi@UNIBO.italy.'' demo_world
                   = (ResultJson r2,
                      snd (assess_student_exam_tool demo_env ''Mario.Rossi@UNIBO.italy.''
                             demo_world))"
    by (simp add: prod_eq_iff)
  have lab: "r_scoring_system r = ''70% Core + 30% Important_Details'' \<and>
             r_scoring_system r2 = ''70% Core + 30% Important_Details''"
    using scoring_system_label_constant
            [of demo_env "''mario.rossi@unibo.italy''"
                "[questions demo_exam ! 0] @ questions demo_exam ! 1 # drop 2 (questions demo_exam)"
                demo_responses True None demo_world r w'
                "''Mario.Rossi@UNIBO.italy.''" r2
                "snd (assess_student_exam_tool demo_env ''Mario.Rossi@UNIBO.italy.'' demo_world)"]
          run [unfolded demo_run_def] tool
    by blast
  have st: "\<exists>s. a_statistics (r_assessments r ! 0) = Some (Stats s) \<and>
          st_scoring_system s = ''100% Core (no Important details)''"
    using demo_label_facts(2) r by (auto split: option.splits stats.splits)
  show ?thesis using run tool lab st by blast
qed

section \<open>Student resolution\<close>


lemma find_in_students_find:
  "find_in_students q roster = find (student_matches q) roster"
  by (induction roster) simp_all

lemma find_in_students_append:
  "find_in_students q (xs @ ys) =
     (case find_in_students q xs of None \<Rightarrow> find_in_students q ys | Some s \<Rightarrow> Some s)"
  by (induction xs) simp_all

lemma find_student_concat:
  "map_option fst (find_student q exams)
     = find_in_students q (concat (map (\<lambda>(k, ex). students ex) exams))"
proof (induction exams)
  case Nil
  then show ?case by simp
next
  case (Cons p exams)
  obtain k ex where p: "p = (k, ex)" by (cases p)
  show ?case
    using Cons.IH by (cases "find_in_students q (students ex)")
      (simp_all add: p find_in_students_append)
qed

lemma find_in_students_mem:
  "find_in_students q roster = Some s \<Longrightarrow> s \<in> set roster"
  by (induction roster) (auto split: if_splits)

lemma find_student_source:
  "find_student q exams = Some (s, qs, m) \<Longrightarrow>
   m = email s \<and> (\<exists>k ex. (k, ex) \<in> set exams \<and> qs = questions ex \<and> s \<in> set (students ex))"
proof (induction exams)
  case Nil
  then show ?case by simp
next
  case (Cons p exams)
  obtain k ex where p: "p = (k, ex)" by (cases p)
  show ?case
  proof (cases "find_in_students q (students ex)")
    case None
    then show ?thesis using Cons p by auto
  next
    case (Some s')
    then have "s' \<in> set (students ex)" by (rule find_in_students_mem)
    then show ?thesis using Cons.prems p Some by auto
  qed
qed

text \<open>
  Claim C4, as amended. The resolution is one pass in roster order: it returns the first
  student whose lower-cased email equals the lower-cased query or, for a query of at least
  10 characters, starts with it, and nobody when no student matches; over the loaded exams
  it is that pass over their rosters one after the other, and it gives the student's full
  email and the questions of the student's exam. The tool searches for the query without
  its trailing dots and surrounding whitespace and answers \<open>Student not found\<close> when the
  search finds nobody.
\<close>

theorem find_student_first_match:
  "(find_in_students q roster = None \<longleftrightarrow> (\<forall>s\<in>set roster. \<not> student_matches q s)) \<and>
   (find_in_students q roster = Some s \<longleftrightarrow>
      (\<exists>i<length roster. roster ! i = s \<and> student_matches q s \<and>
                          (\<forall>j<i. \<not> student_matches q (roster ! j)))) \<and>
   (student_matches q s \<longleftrightarrow>
      lower (email s) = lower q \<or>
      (10 \<le> length q \<and> startswith (lower (email s)) (lower q))) \<and>
   map_option fst (find_student q exams)
     = find_in_students q (concat (map (\<lambda>(k, ex). students ex) exams)) \<and>
   (find_student q exams = Some (s, qs, m) \<longrightarrow>
      m = email s \<and>
      (\<exists>k ex. (k, ex) \<in> set exams \<and> qs = questions ex \<and> s \<in> set (students ex))) \<and>
   (find_student (strip (rstrip_chars ''.'' query)) (loaded_exams w) = None \<longrightarrow>
      assess_student_exam_tool e query w
        = (ErrorJson (''Student not found: '' @ [CHR 0x27] @ strip (rstrip_chars ''.'' query)
                      @ [CHR 0x27]), w))"
proof (intro conjI)
  show "find_student (strip (rstrip_chars ''.'' query)) (loaded_exams w) = None \<longrightarrow>
      assess_student_exam_tool e query w
        = (ErrorJson (''Student not found: '' @ [CHR 0x27] @ strip (rstrip_chars ''.'' query)
                      @ [CHR 0x27]), w)"
    by (simp add: assess_student_exam_tool_def Let_def)
  show "find_in_students q roster = None \<longleftrightarrow> (\<forall>s\<in>set roster. \<not> student_matches q s)"
    by (auto simp: find_in_students_find find_None_iff)
  show "find_in_students q roster = Some s \<longleftrightarrow>
      (\<exists>i<length roster. roster ! i = s \<and> student_matches q s \<and>
                          (\<forall>j<i. \<not> student_matches q (roster ! j)))"
    unfolding find_in_students_find find_Some_iff by auto
  show "student_matches q s \<longleftrightarrow>
      lower (email s) = lower q \<or>
      (10 \<le> length q \<and> startswith (lower (email s)) (lower q))"
    by (simp add: student_matches_def Let_def)
  show "map_option fst (find_student q exams)
     = find_in_students q (concat (map (\<lambda>(k, ex). students ex) exams))"
    by (rule find_student_concat)
  show "find_student q exams = Some (s, qs, m) \<longrightarrow>
      m = email s \<and>
      (\<exists>k ex. (k, ex) \<in> set exams \<and> qs = questions ex \<and> s \<in> set (students ex))"
    using find_student_source [of q exams s qs m] by blast
qed

lemma demo_match_facts:
  "student_matches ''mario.rossi@unibo.it'' (students demo_exam ! 0)"
  "0 < length (students demo_exam)"
  "10 \<le> length ''mario.rossi@unibo.it''"
  "email (students demo_exam ! 0) = ''mario.rossi@unibo.italy''"
  by code_simp+

text \<open>The query \<open>mario.rossi@unibo.it\<close> on the small exam: the first student matches by
  prefix and is returned.\<close>

theorem find_student_first_match_witness:
  "0 < length (students demo_exam) \<and>
   student_matches ''mario.rossi@unibo.it'' (students demo_exam ! 0) \<and>
   email (students demo_exam ! 0) = ''mario.rossi@unibo.italy'' \<and>
   find_in_students ''mario.rossi@unibo.it'' (students demo_exam) = Some (students demo_exam ! 0)"
proof -
  have "\<exists>i<length (students demo_exam).
          students demo_exam ! i = students demo_exam ! 0 \<and>
          student_matches ''mario.rossi@unibo.it'' (students demo_exam ! 0) \<and>
          (\<forall>j<i. \<not> student_matches ''mario.rossi@unibo.it'' (students demo_exam ! j))"
    using demo_match_facts(1,2) by (intro exI [of _ 0]) simp
  then have "find_in_students ''mario.rossi@unibo.it'' (students demo_exam)
             = Some (students demo_exam ! 0)"
    using find_student_first_match
            [of "''mario.rossi@unibo.it''" "students demo_exam" "students demo_exam ! 0"]
    by blast
  then show ?thesis using demo_match_facts by simp
qed

text \<open>
  Claim C4 as stated fails: in the small exam the student \<open>mario.rossi@unibo.it\<close> comes
  after \<open>mario.rossi@unibo.italy\<close>. The policy of the specification resolves the query
  \<open>mario.rossi@unibo.it\<close> to the exact match; the code returns the earlier student, whose
  email the query is a prefix of, and the tool assesses that student.
\<close>

theorem student_resolution_counterexample:
  "map_option email (spec_resolve ''mario.rossi@unibo.it'' (students demo_exam))
     = Some ''mario.rossi@unibo.it'' \<and>
   map_option email (find_in_students ''mario.rossi@unibo.it'' (students demo_exam))
     = Some ''mario.rossi@unibo.italy'' \<and>
   map_option (\<lambda>x. snd (snd x)) (find_student ''mario.rossi@unibo.it'' (loaded_exams demo_world))
     = Some ''mario.rossi@unibo.italy''"
  by code_simp

section \<open>Workers and report\<close>


lemma worker_loop_students:
  "w_student ` set (fst (worker_loop tool wid bs results w))
     \<subseteq> w_student ` set results \<union> set bs"
proof (induction bs arbitrary: results w)
  case Nil
  then show ?case by simp
next
  case (Cons s bs)
  obtain x w1 where t: "tool s w = (x, w1)" by (cases "tool s w")
  show ?case
  proof (cases x)
    case (Inl exn)
    then show ?thesis using Cons.IH [of results w1] t by auto
  next
    case (Inr json)
    then show ?thesis
    proof (cases json)
      case (ErrorJson msg)
      then show ?thesis using Cons.IH [of results w1] t Inr by auto
    next
      case (ResultJson d)
      let ?res = "results @ [\<lparr>w_worker_id = wid, w_student = s,
                          w_score = r_calculated_score d,
                          w_max_score = r_max_score d,
                          w_percentage = r_percentage d\<rparr>]"
      have "w_student ` set (fst (worker_loop tool wid bs ?res w1))
              \<subseteq> w_student ` set ?res \<union> set bs"
        by (rule Cons.IH)
      then show ?thesis using t Inr ResultJson by auto
    qed
  qed
qed

lemma worker_loop_keeps:
  "set results \<subseteq> set (fst (worker_loop tool wid bs results w))"
proof (induction bs arbitrary: results w)
  case Nil
  then show ?case by simp
next
  case (Cons s bs)
  obtain x w1 where t: "tool s w = (x, w1)" by (cases "tool s w")
  show ?case
  proof (cases x)
    case (Inl exn)
    then show ?thesis using Cons.IH [of results w1] t by auto
  next
    case (Inr json)
    then show ?thesis
    proof (cases json)
      case (ErrorJson msg)
      then show ?thesis using Cons.IH [of results w1] t Inr by auto
    next
      case (ResultJson d)
      let ?res = "results @ [\<lparr>w_worker_id = wid, w_student = s,
                          w_score = r_calculated_score d,
                          w_max_score = r_max_score d,
                          w_percentage = r_percentage d\<rparr>]"
      have "set ?res \<subseteq> set (fst (worker_loop tool wid bs ?res w1))"
        by (rule Cons.IH)
      then show ?thesis using t Inr ResultJson by auto
    qed
  qed
qed

lemma worker_loop_failed:
  assumes "\<forall>w0. assessment_failed (fst (tool s w0))"
  shows "s \<notin> w_student ` set results \<Longrightarrow>
         s \<notin> w_student ` set (fst (worker_loop tool wid bs results w))"
proof (induction bs arbitrary: results w)
  case Nil
  then show ?case by simp
next
  case (Cons s' bs)
  obtain x w1 where t: "tool s' w = (x, w1)" by (cases "tool s' w")
  show ?case
  proof (cases x)
    case (Inl exn)
    then show ?thesis using Cons.IH [of results w1] Cons.prems t by auto
  next
    case (Inr json)
    then show ?thesis
    proof (cases json)
      case (ErrorJson msg)
      then show ?thesis using Cons.IH [of results w1] Cons.prems t Inr by auto
    next
      case (ResultJson d)
      have "\<not> assessment_failed (fst (tool s' w))"
        using t Inr ResultJson by (simp add: assessment_failed_def)
      with assms have ne: "s \<noteq> s'" by auto
      let ?res = "results @ [\<lparr>w_worker_id = wid, w_student = s',
                          w_score = r_calculated_score d,
                          w_max_score = r_max_score d,
                          w_percentage = r_percentage d\<rparr>]"
      have "s \<notin> w_student ` set ?res" using Cons.prems ne by auto
      from Cons.IH [OF this, of w1] show ?thesis using t Inr ResultJson by auto
    qed
  qed
qed

lemma worker_loop_succeeded:
  assumes "\<forall>w0. \<not> assessment_failed (fst (tool s w0))"
  shows "s \<in> set bs \<Longrightarrow>
         s \<in> w_student ` set (fst (worker_loop tool wid bs results w))"
proof (induction bs arbitrary: results w)
  case Nil
  then show ?case by simp
next
  case (Cons s' bs)
  obtain x w1 where t: "tool s' w = (x, w1)" by (cases "tool s' w")
  show ?case
  proof (cases "s = s'")
    case True
    have "\<not> assessment_failed (fst (tool s' w))" using assms True by simp
    then obtain d where x: "x = Inr (ResultJson d)"
      using t by (auto simp: assessment_failed_def split: sum.splits tool_json.splits)
    let ?res = "results @ [\<lparr>w_worker_id = wid, w_student = s',
                          w_score = r_calculated_score d,
                          w_max_score = r_max_score d,
                          w_percentage = r_percentage d\<rparr>]"
    have "set ?res \<subseteq> set (fst (worker_loop tool wid bs ?res w1))"
      by (rule worker_loop_keeps)
    then have "s' \<in> w_student ` set (fst (worker_loop tool wid bs ?res w1))"
      by force
    then show ?thesis using t x True by simp
  next
    case False
    then have mem: "s \<in> set bs" using Cons.prems by simp
    show ?thesis
    proof (cases x)
      case (Inl exn)
      then show ?thesis using Cons.IH [OF mem, of results w1] t by simp
    next
      case (Inr json)
      then show ?thesis
      proof (cases json)
        case (ErrorJson msg)
        then show ?thesis using Cons.IH [OF mem, of results w1] t Inr by simp
      next
        case (ResultJson d)
        then show ?thesis using Cons.IH [OF mem] t Inr by simp
      qed
    qed
  qed
qed

text \<open>The same for the workers of a run, over the students of all batches.\<close>

lemma run_workers_students:
  "w_student ` set (fst (run_workers tool sends acc w))
     \<subseteq> w_student ` set acc \<union> set (concat (map batch sends))"
proof (induction sends arbitrary: acc w)
  case Nil
  then show ?case by simp
next
  case (Cons send sends)
  obtain res w1 where n: "worker_node tool send w = (res, w1)"
    by (cases "worker_node tool send w")
  have r: "w_student ` set res \<subseteq> set (batch send)"
    using worker_loop_students [of tool "worker_id send + 1" "batch send" "[]" w] n
    by (simp add: worker_node_def)
  have "w_student ` set (fst (run_workers tool sends (acc @ res) w1))
          \<subseteq> w_student ` set (acc @ res) \<union> set (concat (map batch sends))"
    by (rule Cons.IH)
  then show ?case using n r by auto
qed

lemma run_workers_keeps:
  "set acc \<subseteq> set (fst (run_workers tool sends acc w))"
proof (induction sends arbitrary: acc w)
  case Nil
  then show ?case by simp
next
  case (Cons send sends)
  obtain res w1 where n: "worker_node tool send w = (res, w1)"
    by (cases "worker_node tool send w")
  have "set (acc @ res) \<subseteq> set (fst (run_workers tool sends (acc @ res) w1))"
    by (rule Cons.IH)
  then show ?case using n by auto
qed

lemma run_workers_failed:
  assumes "\<forall>w0. assessment_failed (fst (tool s w0))"
  shows "s \<notin> w_student ` set acc \<Longrightarrow>
         s \<notin> w_student ` set (fst (run_workers tool sends acc w))"
proof (induction sends arbitrary: acc w)
  case Nil
  then show ?case by simp
next
  case (Cons send sends)
  obtain res w1 where n: "worker_node tool send w = (res, w1)"
    by (cases "worker_node tool send w")
  have "s \<notin> w_student ` set res"
    using worker_loop_failed [where tool = tool and s = s and results = "[]"
            and wid = "worker_id send + 1" and bs = "batch send" and w = w] assms n
    by (simp add: worker_node_def)
  then have "s \<notin> w_student ` set (acc @ res)" using Cons.prems by auto
  from Cons.IH [OF this, of w1] show ?case using n by simp
qed

lemma run_workers_succeeded:
  assumes "\<forall>w0. \<not> assessment_failed (fst (tool s w0))"
  shows "s \<in> set (concat (map batch sends)) \<Longrightarrow>
         s \<in> w_student ` set (fst (run_workers tool sends acc w))"
proof (induction sends arbitrary: acc w)
  case Nil
  then show ?case by simp
next
  case (Cons send sends)
  obtain res w1 where n: "worker_node tool send w = (res, w1)"
    by (cases "worker_node tool send w")
  show ?case
  proof (cases "s \<in> set (batch send)")
    case True
    have "s \<in> w_student ` set res"
      using worker_loop_succeeded [where tool = tool and s = s and results = "[]"
              and wid = "worker_id send + 1" and bs = "batch send" and w = w] assms True n
      by (simp add: worker_node_def)
    then have "s \<in> w_student ` set (acc @ res)" by auto
    moreover have "set (acc @ res) \<subseteq> set (fst (run_workers tool sends (acc @ res) w1))"
      by (rule run_workers_keeps)
    ultimately have "s \<in> w_student ` set (fst (run_workers tool sends (acc @ res) w1))"
      by blast
    then show ?thesis using n by simp
  next
    case False
    then have "s \<in> set (concat (map batch sends))" using Cons.prems by simp
    from Cons.IH [OF this, of "acc @ res" w1] show ?thesis using n by simp
  qed
qed

lemma map_snd_enumerate_fun: "map (\<lambda>x. g (snd x)) (enumerate n xs) = map g xs"
  by (induction xs arbitrary: n) simp_all

lemma create_worker_sends_batches: "map batch (create_worker_sends batches) = batches"
  using map_snd_enumerate_fun [of "\<lambda>b. b" 0 batches]
  by (simp add: create_worker_sends_def split_def comp_def)

lemma report_node_lines:
  "(state_assessments = [] \<longrightarrow>
      report_node state_assessments n = ReportText ''Nessuna valutazione completata'') \<and>
   (state_assessments \<noteq> [] \<longrightarrow>
      (\<exists>rp. report_node state_assessments n = Report rp \<and>
            rp_total_students rp = length state_assessments \<and>
            map rl_email_preview (rp_lines rp)
              = map (\<lambda>a. take 40 (w_student a) @ ''...'')
                  (sort_key w_student state_assessments)))"
  by (simp add: report_node_def Let_def split_def comp_def
        map_snd_enumerate_fun [of "\<lambda>a. take 40 (w_student a) @ ''...''"])


lemma py_slice_subset: "set (py_slice xs lo hi) \<subseteq> set xs"
proof -
  have "set (take n (drop m xs)) \<subseteq> set xs" for n m
    using set_take_subset [of n "drop m xs"] set_drop_subset [of m xs] by blast
  then show ?thesis by (simp add: py_slice_def Let_def)
qed

lemma distribute_node_subset:
  assumes "distribute_node roster W = Inr upd"
  shows "set (concat (student_batches upd)) \<subseteq> email ` set roster"
proof -
  from assms obtain idx bsz where
    "student_batches upd = map (\<lambda>i. py_slice (map email roster) i (i + bsz)) idx"
    by (auto simp: distribute_node_def Let_def split: sum.splits)
  then show ?thesis using py_slice_subset [of "map email roster"] by auto
qed

lemma distribute_node_covers:
  assumes "distribute_node roster W = Inr upd" "0 < W"
  shows "concat (student_batches upd) = map email roster"
proof -
  have "0 \<le> int (length roster) div W" using assms(2) by (simp add: pos_imp_zdiv_nonneg_iff)
  then have pos: "0 < int (length roster) div W + 1" by simp
  have "student_batches upd =
          map (\<lambda>j. py_slice (map email roster) j (j + (int (length roster) div W + 1)))
            (range_up 0 (int (length (map email roster))) (int (length roster) div W + 1))"
    using assms(1) distribute_node_pos [OF assms(2), of roster] by auto
  then show ?thesis
    using concat_batches [OF pos, of 0 "map email roster"] by simp
qed

text \<open>
  Claim C8, as amended. In a batch run a student whose assessment fails, by returning an
  error or by raising, is in no entry of the merged results, while a student of the roster
  whose assessment succeeds is; the entries are of students of the roster. The report has
  one line per entry, in the order of the emails, and counts the entries; with no entry it
  is the text \<open>Nessuna valutazione completata\<close>. So a failed student is omitted from the
  report.
\<close>

theorem failed_students_omitted:
  assumes "run_batches tool exam_students W w = Inr ((state_assessments, rep), w')"
  shows "((\<forall>w0. assessment_failed (fst (tool s w0))) \<longrightarrow>
            s \<notin> w_student ` set state_assessments) \<and>
         (0 < W \<and> s \<in> email ` set exam_students \<and>
          (\<forall>w0. \<not> assessment_failed (fst (tool s w0))) \<longrightarrow>
            s \<in> w_student ` set state_assessments) \<and>
         w_student ` set state_assessments \<subseteq> email ` set exam_students \<and>
         (state_assessments = [] \<longrightarrow> rep = ReportText ''Nessuna valutazione completata'') \<and>
         (state_assessments \<noteq> [] \<longrightarrow>
            (\<exists>rp. rep = Report rp \<and>
                  rp_total_students rp = length state_assessments \<and>
                  map rl_email_preview (rp_lines rp)
                    = map (\<lambda>a. take 40 (w_student a) @ ''...'')
                        (sort_key w_student state_assessments)))"
proof -
  from assms obtain upd where
    d: "distribute_node exam_students W = Inr upd"
    by (cases "distribute_node exam_students W") (simp_all add: run_batches_def)
  let ?sends = "create_worker_sends (student_batches upd)"
  from assms d have
    rw: "fst (run_workers tool ?sends [] w) = state_assessments"
    and rp: "rep = report_node state_assessments (num_workers upd)"
    by (auto simp: run_batches_def split: prod.splits)
  have bat: "concat (map batch ?sends) = concat (student_batches upd)"
    by (simp add: create_worker_sends_batches)
  have c1: "(\<forall>w0. assessment_failed (fst (tool s w0))) \<longrightarrow>
            s \<notin> w_student ` set state_assessments"
  proof
    assume f: "\<forall>w0. assessment_failed (fst (tool s w0))"
    have "s \<notin> w_student ` set (fst (run_workers tool ?sends [] w))"
      using run_workers_failed [where tool = tool and s = s and acc = "[]"
              and sends = ?sends and w = w] f by simp
    then show "s \<notin> w_student ` set state_assessments" using rw by simp
  qed
  have c2: "0 < W \<and> s \<in> email ` set exam_students \<and>
          (\<forall>w0. \<not> assessment_failed (fst (tool s w0))) \<longrightarrow>
            s \<in> w_student ` set state_assessments"
  proof
    assume h: "0 < W \<and> s \<in> email ` set exam_students \<and>
               (\<forall>w0. \<not> assessment_failed (fst (tool s w0)))"
    then have "concat (student_batches upd) = map email exam_students"
      using distribute_node_covers [OF d] by simp
    then have "s \<in> set (concat (map batch ?sends))" using h bat by simp
    then have "s \<in> w_student ` set (fst (run_workers tool ?sends [] w))"
      using run_workers_succeeded [where tool = tool and s = s and acc = "[]"
              and sends = ?sends and w = w] h by simp
    then show "s \<in> w_student ` set state_assessments" using rw by simp
  qed
  have c3: "w_student ` set state_assessments \<subseteq> email ` set exam_students"
    using run_workers_students [of tool ?sends "[]" w] rw bat distribute_node_subset [OF d]
    by auto
  show ?thesis
    using c1 c2 c3 rp report_node_lines [of state_assessments "num_workers upd"] by simp
qed

lemma demo_tool_run:
  "run_batches demo_tool (students demo_exam2) 1 0 =
     Inr (([\<lparr>w_worker_id = 1, w_student = ''anna.verdi@unibo.it'', w_score = 5,
              w_max_score = 5, w_percentage = 100\<rparr>],
           Report \<lparr>rp_num_workers = 1, rp_total_students = 1, rp_avg_score = 5,
                   rp_max_score = 5, rp_min_score = 5, rp_worker_stats = [(1, 1, 5)],
                   rp_lines =
                     [\<lparr>rl_index = 1, rl_email_preview = ''anna.verdi@unibo.it...'',
                       rl_score = 5, rl_max_score = 5, rl_percentage = 100,
                       rl_worker_id = 1\<rparr>]\<rparr>), 2)"
  by code_simp

text \<open>Two students and one worker; the tool returns an error for the second student.\<close>

theorem failed_students_omitted_witness:
  "run_batches demo_tool (students demo_exam2) 1 0 =
     Inr (([\<lparr>w_worker_id = 1, w_student = ''anna.verdi@unibo.it'', w_score = 5,
              w_max_score = 5, w_percentage = 100\<rparr>],
           Report \<lparr>rp_num_workers = 1, rp_total_students = 1, rp_avg_score = 5,
                   rp_max_score = 5, rp_min_score = 5, rp_worker_stats = [(1, 1, 5)],
                   rp_lines =
                     [\<lparr>rl_index = 1, rl_email_preview = ''anna.verdi@unibo.it...'',
                       rl_score = 5, rl_max_score = 5, rl_percentage = 100,
                       rl_worker_id = 1\<rparr>]\<rparr>), 2) \<and>
   (\<forall>w0. assessment_failed (fst (demo_tool ''readonly@unibo.it'' w0))) \<and>
   (\<forall>w0. \<not> assessment_failed (fst (demo_tool ''anna.verdi@unibo.it'' w0))) \<and>
   ''anna.verdi@unibo.it'' \<in> email ` set (students demo_exam2) \<and>
   ''readonly@unibo.it'' \<in> email ` set (students demo_exam2) \<and>
   ''readonly@unibo.it''
     \<notin> w_student ` set [\<lparr>w_worker_id = 1, w_student = ''anna.verdi@unibo.it'', w_score = 5,
                          w_max_score = 5, w_percentage = 100\<rparr>] \<and>
   ''anna.verdi@unibo.it''
     \<in> w_student ` set [\<lparr>w_worker_id = 1, w_student = ''anna.verdi@unibo.it'', w_score = 5,
                          w_max_score = 5, w_percentage = 100\<rparr>]"
proof -
  have f: "\<forall>w0. assessment_failed (fst (demo_tool ''readonly@unibo.it'' w0))"
    by (simp add: demo_tool_def assessment_failed_def)
  have g: "\<forall>w0. \<not> assessment_failed (fst (demo_tool ''anna.verdi@unibo.it'' w0))"
    by (simp add: demo_tool_def assessment_failed_def)
  have m: "''anna.verdi@unibo.it'' \<in> email ` set (students demo_exam2)"
    "''readonly@unibo.it'' \<in> email ` set (students demo_exam2)"
    by (simp_all add: demo_exam2_def)
  from failed_students_omitted [OF demo_tool_run, of "''readonly@unibo.it''"] f
  have a: "''readonly@unibo.it''
     \<notin> w_student ` set [\<lparr>w_worker_id = 1, w_student = ''anna.verdi@unibo.it'', w_score = 5,
                          w_max_score = 5, w_percentage = 100\<rparr>]"
    by blast
  from failed_students_omitted [OF demo_tool_run, of "''anna.verdi@unibo.it''"] g m(1)
  have b: "''anna.verdi@unibo.it''
     \<in> w_student ` set [\<lparr>w_worker_id = 1, w_student = ''anna.verdi@unibo.it'', w_score = 5,
                          w_max_score = 5, w_percentage = 100\<rparr>]"
    by simp
  show ?thesis using demo_tool_run f g m a b by blast
qed

text \<open>
  Claim C8 as stated fails: with the tool of the server, the assessment of the second
  student of the two returns an error (the directory cannot be written); the merged results
  and the report have the first student only, and the report counts one student.
\<close>

theorem failed_student_missing_counterexample:
  "map email (students demo_exam2) = [''anna.verdi@unibo.it'', ''readonly@unibo.it''] \<and>
   assessment_failed (fst (server_tool demo_env ''readonly@unibo.it'' demo_world2)) \<and>
   \<not> isl demo_batch_run \<and>
   fst (projr demo_batch_run) =
     ([\<lparr>w_worker_id = 1, w_student = ''anna.verdi@unibo.it'', w_score = 5,
        w_max_score = 5, w_percentage = 100\<rparr>],
      Report \<lparr>rp_num_workers = 1, rp_total_students = 1, rp_avg_score = 5,
              rp_max_score = 5, rp_min_score = 5, rp_worker_stats = [(1, 1, 5)],
              rp_lines =
                [\<lparr>rl_index = 1, rl_email_preview = ''anna.verdi@unibo.it...'',
                  rl_score = 5, rl_max_score = 5, rl_percentage = 100,
                  rl_worker_id = 1\<rparr>]\<rparr>)"
  by code_simp

end
